theory Spec2Isabelle
  imports Complex_Main
begin

section \<open>Tensors and errors\<close>

text \<open>
  The notebook \<^verbatim>\<open>2_clustering/gnn_cluster.ipynb\<close> computes on PyTorch tensors. A
  one-dimensional tensor is modelled as a list of reals, a two-dimensional tensor as the
  list of its rows. Tensor entries are real numbers, and sums and products are exact;
  the one operation whose 32-bit floating point rounding is modelled is the sigmoid,
  which saturates. Where PyTorch or Python raises, the model returns \<open>Inl\<close> of the
  error.
\<close>

type_synonym vec = "real list"
type_synonym mat = "real list list"

datatype error =
  ShapeError | ZeroDivisionError | IndexError | KeyError | DGLError | NameError
  | FileNotFoundError | UnpicklingError | Unmodelled

text \<open>
  \<open>Unmodelled\<close> marks a tensor rank that the notebook never produces at that place and
  that the model therefore does not compute; it is not a value the program returns.
\<close>

definition ebind :: "error + 'a \<Rightarrow> ('a \<Rightarrow> error + 'b) \<Rightarrow> error + 'b" where
  "ebind x f = (case x of Inl e \<Rightarrow> Inl e | Inr v \<Rightarrow> f v)"

fun sequence :: "(error + 'a) list \<Rightarrow> error + 'a list" where
  "sequence [] = Inr []"
| "sequence (x # xs) = ebind x (\<lambda>v. ebind (sequence xs) (\<lambda>vs. Inr (v # vs)))"

text \<open>
  Broadcasting of a binary operation along one dimension: equal sizes combine position
  by position, a size of one is repeated against the other, and any other pair of sizes
  raises.
\<close>

definition broadcast2 :: "('a \<Rightarrow> 'b \<Rightarrow> 'c) \<Rightarrow> 'a list \<Rightarrow> 'b list \<Rightarrow> error + 'c list" where
  "broadcast2 f a b =
     (if length a = length b then Inr (map2 f a b)
      else if length a = 1 then Inr (map (f (hd a)) b)
      else if length b = 1 then Inr (map (\<lambda>x. f x (hd b)) a)
      else Inl ShapeError)"

section \<open>The accuracy proxy \<^verbatim>\<open>score_dist_accuracy\<close>\<close>

text \<open>
  \<^verbatim>\<open>torch.round\<close> rounds to the nearest integer and a tie to the even neighbour.
\<close>

definition torch_round :: "real \<Rightarrow> real" where
  "torch_round x =
     (let f = \<lfloor>x\<rfloor>; d = x - of_int f
      in of_int (if d < 1 / 2 then f
                 else if 1 / 2 < d then f + 1
                 else if even f then f else f + 1))"

definition tensor_eq :: "vec \<Rightarrow> vec \<Rightarrow> error + bool list" where
  "tensor_eq a b = broadcast2 (\<lambda>x y. x = y) a b"

text \<open>
  \<^verbatim>\<open>
  def score_dist_accuracy(pred, true):
      pred = pred.round()
      pred[pred!=0] = 1
      pred = 1-pred
      correct = pred==true
      nb_correct = correct.sum()
      nb_total = true.size(0)
      score = float(nb_correct.item()) / nb_total
      return score
  \<close>
\<close>

definition score_dist_accuracy :: "vec \<Rightarrow> vec \<Rightarrow> error + real" where
  "score_dist_accuracy pred true =
     (let pred1 = map torch_round pred;
          pred2 = map (\<lambda>p. if p \<noteq> 0 then 1 else p) pred1;
          pred3 = map (\<lambda>p. 1 - p) pred2
      in case tensor_eq pred3 true of
           Inl e \<Rightarrow> Inl e
         | Inr correct \<Rightarrow>
             (let nb_correct = length (filter (\<lambda>c. c) correct);
                  nb_total = length true
              in if nb_total = 0 then Inl ZeroDivisionError
                 else Inr (real nb_correct / real nb_total)))"

text \<open>The number of positions where "the distance rounds to zero" and "the label is one"
  agree, as the claim words it.\<close>

definition agreeing_pairs :: "vec \<Rightarrow> vec \<Rightarrow> nat" where
  "agreeing_pairs pred true =
     length (filter (\<lambda>(p, t). (torch_round p = 0) = (t = 1)) (zip pred true))"

section \<open>DGL graphs\<close>

text \<open>
  A tensor stored in a graph has one row per node or per edge: a one-dimensional tensor
  holds a scalar per row, a two-dimensional tensor a vector per row.
\<close>

datatype tensor = T1 vec | T2 mat

fun rows :: "tensor \<Rightarrow> nat" where
  "rows (T1 v) = length v"
| "rows (T2 m) = length m"

text \<open>Indexing a tensor's rows by a list of row numbers (\<^verbatim>\<open>t[idx]\<close>).\<close>

fun gather :: "nat list \<Rightarrow> tensor \<Rightarrow> error + tensor" where
  "gather idx (T1 v) =
     (if list_all (\<lambda>i. i < length v) idx then Inr (T1 (map (\<lambda>i. v ! i) idx)) else Inl IndexError)"
| "gather idx (T2 m) =
     (if list_all (\<lambda>i. i < length m) idx then Inr (T2 (map (\<lambda>i. m ! i) idx)) else Inl IndexError)"

text \<open>
  A \<^verbatim>\<open>DGLGraph\<close>: nodes \<open>0..<num_nodes\<close>, a list of directed edges (source,
  destination), and the node and edge frames \<^verbatim>\<open>g.ndata\<close> and \<^verbatim>\<open>g.edata\<close>,
  dictionaries from field names to tensors.
\<close>

record DGLGraph =
  num_nodes :: nat
  edges :: "(nat \<times> nat) list"
  ndata :: "string \<rightharpoonup> tensor"
  edata :: "string \<rightharpoonup> tensor"

definition getitem :: "(string \<rightharpoonup> tensor) \<Rightarrow> string \<Rightarrow> error + tensor" where
  "getitem frame k = (case frame k of None \<Rightarrow> Inl KeyError | Some t \<Rightarrow> Inr t)"

text \<open>
  Assigning a node field (\<^verbatim>\<open>g.ndata[k] = t\<close>): DGL refuses a tensor whose number of
  rows is not the number of nodes.
\<close>

definition set_ndata :: "DGLGraph \<Rightarrow> string \<Rightarrow> tensor \<Rightarrow> error + DGLGraph" where
  "set_ndata g k t =
     (if rows t = num_nodes g then Inr (g\<lparr>ndata := (ndata g)(k \<mapsto> t)\<rparr>) else Inl DGLError)"

text \<open>
  The batch of edges a user-defined edge function receives: \<^verbatim>\<open>edges.src[k]\<close> is node
  field \<open>k\<close> at the source of every edge, \<^verbatim>\<open>edges.dst[k]\<close> at the destination, and
  \<^verbatim>\<open>edges.data[k]\<close> is edge field \<open>k\<close>.
\<close>

record EdgeBatch =
  src :: "string \<Rightarrow> error + tensor"
  dst :: "string \<Rightarrow> error + tensor"
  data :: "string \<Rightarrow> error + tensor"

definition edge_batch :: "DGLGraph \<Rightarrow> EdgeBatch" where
  "edge_batch g =
     \<lparr>src = (\<lambda>k. ebind (getitem (ndata g) k) (gather (map fst (edges g)))),
      dst = (\<lambda>k. ebind (getitem (ndata g) k) (gather (map snd (edges g)))),
      data = getitem (edata g)\<rparr>"

text \<open>
  \<^verbatim>\<open>g.apply_edges(func)\<close> calls \<open>func\<close> on the batch of all edges and stores every field
  of the dictionary it returns in \<^verbatim>\<open>g.edata\<close>; a returned tensor must have one row per
  edge.
\<close>

definition apply_edges ::
  "(EdgeBatch \<Rightarrow> error + (string \<times> tensor) list) \<Rightarrow> DGLGraph \<Rightarrow> error + DGLGraph" where
  "apply_edges func g =
     ebind (func (edge_batch g)) (\<lambda>kvs.
       if list_all (\<lambda>(k, t). rows t = length (edges g)) kvs
       then Inr (g\<lparr>edata := foldl (\<lambda>f (k, t). f(k \<mapsto> t)) (edata g) kvs\<rparr>)
       else Inl DGLError)"

section \<open>The loss \<^verbatim>\<open>get_emb_for_loss\<close>\<close>

text \<open>
  \<^verbatim>\<open>torch.nn.functional.pairwise_distance(x1, x2, p=2.0, eps=1e-06)\<close> is the 2-norm of
  \<open>x1 - x2 + eps\<close> along the last dimension, the subtraction broadcasting.
\<close>

definition pairwise_eps :: real where
  "pairwise_eps = 1 / 1000000"

definition norm2 :: "vec \<Rightarrow> real" where
  "norm2 x = sqrt (sum_list (map (\<lambda>a. a\<^sup>2) x))"

definition row_distance :: "vec \<Rightarrow> vec \<Rightarrow> error + real" where
  "row_distance u v =
     ebind (broadcast2 (\<lambda>a b. a - b + pairwise_eps) u v) (\<lambda>d. Inr (norm2 d))"

fun pairwise_distance :: "tensor \<Rightarrow> tensor \<Rightarrow> error + tensor" where
  "pairwise_distance (T2 x1) (T2 x2) =
     ebind (broadcast2 row_distance x1 x2) (\<lambda>ds. ebind (sequence ds) (\<lambda>d. Inr (T1 d)))"
| "pairwise_distance _ _ = Inl Unmodelled"

text \<open>
  \<^verbatim>\<open>hinge_embedding_loss(input, target, margin=1.0, reduction='none')\<close>, as PyTorch
  computes it: \<open>where(target != 1, clamp_min(margin - input, 0), 0) +
  where(target != -1, input, 0)\<close>.
\<close>

definition hinge_elem :: "real \<Rightarrow> real \<Rightarrow> real" where
  "hinge_elem x y = (if y \<noteq> 1 then max (1 - x) 0 else 0) + (if y \<noteq> - 1 then x else 0)"

fun hinge_embedding_loss :: "tensor \<Rightarrow> tensor \<Rightarrow> error + tensor" where
  "hinge_embedding_loss (T1 x) (T1 y) = ebind (broadcast2 hinge_elem x y) (\<lambda>l. Inr (T1 l))"
| "hinge_embedding_loss _ _ = Inl Unmodelled"

fun tensor_map :: "(real \<Rightarrow> real) \<Rightarrow> tensor \<Rightarrow> tensor" where
  "tensor_map f (T1 v) = T1 (map f v)"
| "tensor_map f (T2 m) = T2 (map (map f) m)"

text \<open>
  \<^verbatim>\<open>
  def get_emb_for_loss(edges):
      src = edges.src['emb']
      dst = edges.dst['emb']
      pred_dist = nn.functional.pairwise_distance(src, dst)
      truth = edges.data['truth']
      true_dist = truth*2 - 1
      loss = nn.functional.hinge_embedding_loss(pred_dist, true_dist, reduction='none')
      return {'loss' : loss, 'pred_dist' : pred_dist, 'true_dist' : true_dist}
  \<close>
\<close>

definition get_emb_for_loss :: "EdgeBatch \<Rightarrow> error + (string \<times> tensor) list" where
  "get_emb_for_loss es =
     ebind (src es ''emb'') (\<lambda>s.
     ebind (dst es ''emb'') (\<lambda>d.
     ebind (pairwise_distance s d) (\<lambda>pred_dist.
     ebind (data es ''truth'') (\<lambda>truth.
       let true_dist = tensor_map (\<lambda>t. t * 2 - 1) truth
       in ebind (hinge_embedding_loss pred_dist true_dist) (\<lambda>loss.
            Inr [(''loss'', loss), (''pred_dist'', pred_dist), (''true_dist'', true_dist)])))))"

text \<open>The Euclidean distance of two vectors of one length, as the claim words it.\<close>

definition euclidean_distance :: "vec \<Rightarrow> vec \<Rightarrow> real" where
  "euclidean_distance u v = sqrt (sum_list (map2 (\<lambda>a b. (a - b)\<^sup>2) u v))"

text \<open>The distance \<^verbatim>\<open>pairwise_distance\<close> gives two vectors of one length.\<close>

definition eps_distance :: "vec \<Rightarrow> vec \<Rightarrow> real" where
  "eps_distance u v = sqrt (sum_list (map2 (\<lambda>a b. (a - b + pairwise_eps)\<^sup>2) u v))"

text \<open>Field \<open>k\<close> of edge number \<open>n\<close> after \<^verbatim>\<open>g.apply_edges(get_emb_for_loss)\<close>.\<close>

definition edge_scalar :: "DGLGraph \<Rightarrow> string \<Rightarrow> nat \<Rightarrow> error + real" where
  "edge_scalar g k n =
     ebind (getitem (edata g) k) (\<lambda>t.
       case t of T1 v \<Rightarrow> if n < length v then Inr (v ! n) else Inl IndexError
               | T2 m \<Rightarrow> Inl Unmodelled)"

section \<open>PyTorch layers\<close>

text \<open>
  \<^verbatim>\<open>nn.Linear(in_features, out_features)\<close> holds a weight matrix with one row per
  output and a bias vector; applied to a vector \<open>x\<close> it gives \<open>W x + b\<close>, and to a
  matrix it does so on every row. An input whose last dimension is not
  \<open>in_features\<close> raises.
\<close>

record Linear =
  in_features :: nat
  out_features :: nat
  weight :: mat
  bias :: vec

definition dot :: "vec \<Rightarrow> vec \<Rightarrow> real" where
  "dot a b = sum_list (map2 (\<lambda>x y. x * y) a b)"

definition affine :: "Linear \<Rightarrow> vec \<Rightarrow> vec" where
  "affine l x = map2 (\<lambda>w b. dot w x + b) (weight l) (bias l)"

fun Linear_forward :: "Linear \<Rightarrow> tensor \<Rightarrow> error + tensor" where
  "Linear_forward l (T1 x) =
     (if length x = in_features l then Inr (T1 (affine l x)) else Inl ShapeError)"
| "Linear_forward l (T2 xs) =
     (if list_all (\<lambda>x. length x = in_features l) xs then Inr (T2 (map (affine l) xs))
      else Inl ShapeError)"

text \<open>The shapes \<^verbatim>\<open>nn.Linear(n_in, n_out)\<close> gives its parameters.\<close>

definition Linear_shape :: "nat \<Rightarrow> nat \<Rightarrow> Linear \<Rightarrow> bool" where
  "Linear_shape n_in n_out l \<longleftrightarrow>
     in_features l = n_in \<and> out_features l = n_out \<and> length (weight l) = n_out
     \<and> list_all (\<lambda>w. length w = n_in) (weight l) \<and> length (bias l) = n_out"

definition relu :: "real \<Rightarrow> real" where
  "relu x = max 0 x"

text \<open>
  The network's tensors are \<^verbatim>\<open>float32\<close>. \<open>float32_round\<close> is the value a float32
  operation stores for an exact result \<open>x\<close> in the finite range: the nearest number
  with 24 significant bits, a tie going to the even one, and below \<^verbatim>\<open>2^-126\<close> the
  nearest multiple of \<^verbatim>\<open>2^-149\<close>. \<open>float32_overflows\<close> says that the exact result rounds to
  infinity instead.
\<close>

definition float32_round :: "real \<Rightarrow> real" where
  "float32_round x =
     (if x = 0 then 0
      else let e = max \<lfloor>log 2 \<bar>x\<bar>\<rfloor> (- 126);
               ulp = 2 powr (of_int e - 23)
           in torch_round (x / ulp) * ulp)"

definition float32_overflows :: "real \<Rightarrow> bool" where
  "float32_overflows x \<longleftrightarrow> (2 - 1 / 2 ^ 24) * 2 ^ 127 \<le> \<bar>x\<bar>"

text \<open>
  \<^verbatim>\<open>nn.Sigmoid\<close> computes \<open>1 / (1 + exp (- x))\<close> in float32, one operation after the
  other. When \<open>exp (- x)\<close> overflows to infinity, so does the sum, and the quotient is
  0. Otherwise the sum is at most the largest float32 plus one, which is finite, and
  every step stores the rounding of its exact result.
\<close>

definition sigmoid :: "real \<Rightarrow> real" where
  "sigmoid x =
     (let t = exp (- x)
      in if float32_overflows t then 0
         else float32_round (1 / float32_round (1 + float32_round t)))"

text \<open>\<^verbatim>\<open>torch.cat((a, b), dim=1)\<close>: the rows of \<open>a\<close> followed by the rows of \<open>b\<close>,
  row by row. Two one-dimensional tensors have no dimension 1 (an \<^verbatim>\<open>IndexError\<close>);
  tensors of different ranks, or with different numbers of rows, cannot be
  concatenated (a \<^verbatim>\<open>RuntimeError\<close> about the shapes).\<close>

fun cat_dim1 :: "tensor \<Rightarrow> tensor \<Rightarrow> error + tensor" where
  "cat_dim1 (T2 a) (T2 b) =
     (if length a = length b then Inr (T2 (map2 (\<lambda>x y. x @ y) a b)) else Inl ShapeError)"
| "cat_dim1 (T1 a) (T1 b) = Inl IndexError"
| "cat_dim1 _ _ = Inl ShapeError"

section \<open>The edge-weighting kernel \<^verbatim>\<open>MLP_Kernel_DGL\<close>\<close>

text \<open>
  \<^verbatim>\<open>
  class MLP_Kernel_DGL(nn.Module):
      def __init__(self, nb_input, nb_hidden_gnn, nb_output=1, nb_layer=1):
          layers = [nn.Linear(nb_input*2, nb_hidden_gnn)]
          for _ in range(nb_layer-1):
              layers.append(nn.Linear(nb_hidden_gnn, nb_hidden_gnn))
          layers.append(nn.Linear(nb_hidden_gnn, nb_output))
          self.layers = nn.ModuleList(layers)
          self.act1 = nn.ReLU()
          self.act2 = nn.Sigmoid()
  \<close>
  The module is its list of linear layers; their parameters are what training has made
  of them. \<open>MLP_Kernel_DGL_init\<close> says that a kernel has the layers the constructor
  builds.
\<close>

record MLP_Kernel_DGL =
  layers :: "Linear list"

definition MLP_Kernel_DGL_init :: "nat \<Rightarrow> nat \<Rightarrow> nat \<Rightarrow> nat \<Rightarrow> MLP_Kernel_DGL \<Rightarrow> bool" where
  "MLP_Kernel_DGL_init nb_input nb_hidden_gnn nb_output nb_layer k \<longleftrightarrow>
     list_all2 (\<lambda>(n_in, n_out) l. Linear_shape n_in n_out l)
       ([(nb_input * 2, nb_hidden_gnn)]
        @ replicate (nb_layer - 1) (nb_hidden_gnn, nb_hidden_gnn)
        @ [(nb_hidden_gnn, nb_output)])
       (layers k)"

text \<open>
  \<^verbatim>\<open>
      def mlp(self, edges):
          src = edges.src['feat']
          dst = edges.dst['feat']
          e_feats = torch.cat((src,dst),dim=1)
          for l in self.layers[:-1]:
              e_feats = self.act1(l(e_feats))
          e_feats = self.layers[-1](e_feats)
          e_feats = self.act2(e_feats)
          return {'e' : e_feats}

      def forward(self, g):
          g.apply_edges(self.mlp)
          return g
  \<close>
\<close>

fun hidden_loop :: "Linear list \<Rightarrow> tensor \<Rightarrow> error + tensor" where
  "hidden_loop [] e_feats = Inr e_feats"
| "hidden_loop (l # ls) e_feats =
     ebind (Linear_forward l e_feats) (\<lambda>y. hidden_loop ls (tensor_map relu y))"

definition mlp :: "MLP_Kernel_DGL \<Rightarrow> EdgeBatch \<Rightarrow> error + (string \<times> tensor) list" where
  "mlp k es =
     ebind (src es ''feat'') (\<lambda>s.
     ebind (dst es ''feat'') (\<lambda>d.
     ebind (cat_dim1 s d) (\<lambda>e_feats.
     ebind (hidden_loop (butlast (layers k)) e_feats) (\<lambda>e_feats.
       if layers k = [] then Inl IndexError
       else ebind (Linear_forward (last (layers k)) e_feats) (\<lambda>e_feats.
              Inr [(''e'', tensor_map sigmoid e_feats)])))))"

definition MLP_Kernel_DGL_forward :: "MLP_Kernel_DGL \<Rightarrow> DGLGraph \<Rightarrow> error + DGLGraph" where
  "MLP_Kernel_DGL_forward k g = apply_edges (mlp k) g"

text \<open>
  The weight of one edge as the claim words it: the concatenation of the two feature
  vectors goes through the hidden linear layers, each followed by a ReLU, then through
  the final linear layer, then through a sigmoid.
\<close>

definition kernel_f :: "MLP_Kernel_DGL \<Rightarrow> vec \<Rightarrow> vec" where
  "kernel_f k x =
     affine (last (layers k)) (foldl (\<lambda>h l. map relu (affine l h)) x (butlast (layers k)))"

definition edge_weight :: "MLP_Kernel_DGL \<Rightarrow> vec \<Rightarrow> vec \<Rightarrow> vec" where
  "edge_weight k x_i x_j = map sigmoid (kernel_f k (x_i @ x_j))"

text \<open>Row \<open>n\<close> of a two-dimensional field of the edge frame.\<close>

definition edge_row :: "DGLGraph \<Rightarrow> string \<Rightarrow> nat \<Rightarrow> error + vec" where
  "edge_row g k n =
     ebind (getitem (edata g) k) (\<lambda>t.
       case t of T1 v \<Rightarrow> Inl Unmodelled
               | T2 m \<Rightarrow> if n < length m then Inr (m ! n) else Inl IndexError)"

section \<open>Message passing\<close>

text \<open>
  The messages of one \<^verbatim>\<open>update_all\<close>: the name of the message field, one row per
  edge, and the width of a row (which a batch without edges still has).
\<close>

record Messages =
  msg_name :: string
  msg_width :: nat
  msg_rows :: mat

text \<open>
  The built-in message function \<^verbatim>\<open>dgl.function.u_mul_e(u, e, out)\<close>: on every edge, the
  source node's field \<open>u\<close> times the edge's field \<open>e\<close>, broadcasting. DGL raises a
  \<^verbatim>\<open>DGLError\<close> when the two fields do not broadcast.
\<close>

definition u_mul_e :: "string \<Rightarrow> string \<Rightarrow> string \<Rightarrow> DGLGraph \<Rightarrow> error + Messages" where
  "u_mul_e u e out g =
     ebind (getitem (ndata g) u) (\<lambda>fu.
     ebind (gather (map fst (edges g)) fu) (\<lambda>su.
     ebind (getitem (edata g) e) (\<lambda>fe.
       case (fu, su, fe) of
         (T2 nodes, T2 us, T2 es) \<Rightarrow>
           if length us = length es
           then (case sequence (map2 (broadcast2 (\<lambda>a b. a * b)) us es) of
                   Inl err \<Rightarrow> Inl DGLError
                 | Inr ms \<Rightarrow>
                     Inr \<lparr>msg_name = out,
                          msg_width = (case ms of m # _ \<Rightarrow> length m
                                       | [] \<Rightarrow> (case nodes of r # _ \<Rightarrow> length r | [] \<Rightarrow> 0)),
                          msg_rows = ms\<rparr>)
           else Inl DGLError
       | _ \<Rightarrow> Inl Unmodelled)))"

text \<open>
  The built-in reduce function \<^verbatim>\<open>dgl.function.sum(msg, out)\<close>: every node sums the
  messages on the edges that end in it; a node without such an edge gets zeros.
\<close>

definition vec_add :: "vec \<Rightarrow> vec \<Rightarrow> vec" where
  "vec_add a b = map2 (\<lambda>x y. x + y) a b"

definition inbox :: "DGLGraph \<Rightarrow> mat \<Rightarrow> nat \<Rightarrow> mat" where
  "inbox g ms v = map fst (filter (\<lambda>(m, e). snd e = v) (zip ms (edges g)))"

definition fn_sum :: "string \<Rightarrow> string \<Rightarrow> DGLGraph \<Rightarrow> Messages \<Rightarrow> error + string \<times> tensor" where
  "fn_sum msg out g ms =
     (if msg_name ms \<noteq> msg then Inl KeyError
      else Inr (out, T2 (map (\<lambda>v. foldl vec_add (replicate (msg_width ms) 0)
                                     (inbox g (msg_rows ms) v))
                          [0 ..< num_nodes g])))"

text \<open>\<^verbatim>\<open>g.update_all(message_func, reduce_func)\<close> stores the reduced messages as a node
  field.\<close>

definition update_all ::
  "(DGLGraph \<Rightarrow> error + Messages) \<Rightarrow> (DGLGraph \<Rightarrow> Messages \<Rightarrow> error + string \<times> tensor)
     \<Rightarrow> DGLGraph \<Rightarrow> error + DGLGraph" where
  "update_all message_func reduce_func g =
     ebind (message_func g) (\<lambda>ms.
     ebind (reduce_func g ms) (\<lambda>(k, t). set_ndata g k t))"

section \<open>The layer \<^verbatim>\<open>GNN_Layer\<close>\<close>

text \<open>
  \<^verbatim>\<open>
  class GNN_Layer(nn.Module):
      def __init__(self, input_dim, nb_hidden_gnn, nb_hidden_kernel, apply_norm=True):
          self.edge_weighting = MLP_Kernel_DGL(input_dim, nb_hidden_kernel)
          self.bn = nn.BatchNorm1d(input_dim,momentum=0.10) if apply_norm else None
          self.fc = nn.Linear(2*input_dim, nb_hidden_gnn)
          self.act = nn.ReLU()
  \<close>
  The batch normalisation is PyTorch's: what it returns for a batch depends on the
  module's mode and running statistics, so the model takes it as a function of the
  layer.
\<close>

record GNN_Layer =
  edge_weighting :: MLP_Kernel_DGL
  bn :: "(tensor \<Rightarrow> error + tensor) option"
  fc :: Linear

definition GNN_Layer_init :: "nat \<Rightarrow> nat \<Rightarrow> nat \<Rightarrow> bool \<Rightarrow> GNN_Layer \<Rightarrow> bool" where
  "GNN_Layer_init input_dim nb_hidden_gnn nb_hidden_kernel apply_norm l \<longleftrightarrow>
     MLP_Kernel_DGL_init input_dim nb_hidden_kernel 1 1 (edge_weighting l)
     \<and> (bn l \<noteq> None) = apply_norm
     \<and> Linear_shape (2 * input_dim) nb_hidden_gnn (fc l)"

text \<open>
  \<^verbatim>\<open>
      def forward(self, g, features):
          if self.bn is not None:
              features = self.bn(features)
          g.ndata['feat'] = features
          g = self.edge_weighting(g)
          g.update_all(message_func=dgl.function.u_mul_e('feat', 'e', 'msg'),
                       reduce_func=dgl.function.sum('msg', 'agg_msg'))
          node_feats = torch.cat((features, g.ndata['agg_msg']), dim=1)
          emb = self.fc(node_feats)
          emb = self.act(emb)
          return emb
  \<close>
  The graph is changed in place; the model returns it beside the embedding.
\<close>

definition normalized :: "GNN_Layer \<Rightarrow> tensor \<Rightarrow> error + tensor" where
  "normalized l features = (case bn l of None \<Rightarrow> Inr features | Some b \<Rightarrow> b features)"

definition GNN_Layer_forward :: "GNN_Layer \<Rightarrow> DGLGraph \<Rightarrow> tensor \<Rightarrow> error + tensor \<times> DGLGraph" where
  "GNN_Layer_forward l g features =
     ebind (normalized l features) (\<lambda>features.
     ebind (set_ndata g ''feat'' features) (\<lambda>g.
     ebind (MLP_Kernel_DGL_forward (edge_weighting l) g) (\<lambda>g.
     ebind (update_all (u_mul_e ''feat'' ''e'' ''msg'') (fn_sum ''msg'' ''agg_msg'') g) (\<lambda>g.
     ebind (getitem (ndata g) ''agg_msg'') (\<lambda>agg_msg.
     ebind (cat_dim1 features agg_msg) (\<lambda>node_feats.
     ebind (Linear_forward (fc l) node_feats) (\<lambda>emb.
       Inr (tensor_map relu emb, g))))))))"

text \<open>
  The aggregation as the claim words it: component by component, the sum over the
  edges \<open>(j, i)\<close> that end in node \<open>i\<close> of the weight of that edge times the feature
  vector of the neighbour \<open>j\<close>.
\<close>

definition in_edges :: "(nat \<times> nat) list \<Rightarrow> nat \<Rightarrow> (nat \<times> nat) list" where
  "in_edges es i = filter (\<lambda>(j, i'). i' = i) es"

definition neighbor_sum :: "MLP_Kernel_DGL \<Rightarrow> (nat \<times> nat) list \<Rightarrow> mat \<Rightarrow> nat \<Rightarrow> vec" where
  "neighbor_sum k es x i =
     map (\<lambda>c. \<Sum>(j, i') \<leftarrow> in_edges es i. hd (edge_weight k (x ! j) (x ! i')) * (x ! j ! c))
       [0 ..< length (x ! i)]"

text \<open>Row \<open>i\<close> of a two-dimensional tensor.\<close>

definition node_row :: "tensor \<Rightarrow> nat \<Rightarrow> error + vec" where
  "node_row t i =
     (case t of T1 v \<Rightarrow> Inl Unmodelled
              | T2 m \<Rightarrow> if i < length m then Inr (m ! i) else Inl IndexError)"

section \<open>The network \<^verbatim>\<open>GNN\<close>\<close>

text \<open>
  \<^verbatim>\<open>
  class GNN(nn.Module):
      def __init__(self, nb_hidden_gnn, nb_layer, nb_hidden_kernel, input_dim, emb_dim=2):
          gnn_layers = [GNN_Layer(input_dim, nb_hidden_gnn, nb_hidden_kernel, apply_norm=True)]
          for _ in range(nb_layer-1):
              gnn_layers.append(GNN_Layer(nb_hidden_gnn, nb_hidden_gnn, nb_hidden_kernel))
          self.layers = nn.ModuleList(gnn_layers)
          self.final_emb = nn.Linear(nb_hidden_gnn, emb_dim)

      def forward(self, g):
          emb = g.ndata.pop('feat')
          for i, layer in enumerate(self.layers):
              emb = layer(g, emb)
          emb = self.final_emb(emb)
          return emb
  \<close>
  (The field \<^verbatim>\<open>layers\<close> is \<open>gnn_layers\<close> here, the kernel's record has the name.)
\<close>

record GNN =
  gnn_layers :: "GNN_Layer list"
  final_emb :: Linear

fun layers_loop :: "GNN_Layer list \<Rightarrow> DGLGraph \<Rightarrow> tensor \<Rightarrow> error + tensor \<times> DGLGraph" where
  "layers_loop [] g emb = Inr (emb, g)"
| "layers_loop (layer # ls) g emb =
     ebind (GNN_Layer_forward layer g emb) (\<lambda>(emb, g). layers_loop ls g emb)"

definition GNN_forward :: "GNN \<Rightarrow> DGLGraph \<Rightarrow> error + tensor \<times> DGLGraph" where
  "GNN_forward net g =
     ebind (getitem (ndata g) ''feat'') (\<lambda>emb.
     ebind (layers_loop (gnn_layers net) (g\<lparr>ndata := (ndata g)(''feat'' := None)\<rparr>) emb)
       (\<lambda>(emb, g).
     ebind (Linear_forward (final_emb net) emb) (\<lambda>emb. Inr (emb, g))))"

section \<open>The data set\<close>






section \<open>Embedding the samples\<close>

text \<open>
  \<^verbatim>\<open>
  orig_xyz = []
  emb_metric = []
  emb_gnn = []
  pid = []
  weight = []
  net.eval()
  with torch.autograd.no_grad():
      for i, (g_input, g_true) in enumerate(dataloader):
          f = g_input.ndata['feat']
          pid.append(g_input.ndata['pid'])
          orig_xyz.append(g_input.ndata['feat'][:,:3])
          emb_metric.append(g_input.ndata['feat'][:,3:])
          weight.append(g_input.ndata['weight'])
          hits_emb = net(g_input)
          emb_gnn.append(hits_emb.numpy())
  \<close>
  The loop runs over the pairs the data loader yields, one sample each
  (\<^verbatim>\<open>batch_size=1\<close>, no shuffling); \<open>net\<close> is the trained network's forward pass.
\<close>

record Embedded =
  orig_xyz :: "tensor list"
  emb_metric :: "tensor list"
  emb_gnn :: "tensor list"
  pid :: "tensor list"
  weight_list :: "tensor list"

text \<open>The column slices \<^verbatim>\<open>t[:, :n]\<close> and \<^verbatim>\<open>t[:, n:]\<close>; a one-dimensional tensor has no
  second index.\<close>

fun cols_to :: "nat \<Rightarrow> tensor \<Rightarrow> error + tensor" where
  "cols_to n (T2 m) = Inr (T2 (map (take n) m))"
| "cols_to n (T1 v) = Inl IndexError"

fun cols_from :: "nat \<Rightarrow> tensor \<Rightarrow> error + tensor" where
  "cols_from n (T2 m) = Inr (T2 (map (drop n) m))"
| "cols_from n (T1 v) = Inl IndexError"

definition embed_sample ::
  "(DGLGraph \<Rightarrow> error + tensor \<times> DGLGraph) \<Rightarrow> DGLGraph \<times> DGLGraph \<Rightarrow> Embedded
     \<Rightarrow> error + Embedded" where
  "embed_sample net batch acc =
     (let g_input = fst batch in
      ebind (getitem (ndata g_input) ''feat'') (\<lambda>f.
      ebind (getitem (ndata g_input) ''pid'') (\<lambda>p.
      ebind (getitem (ndata g_input) ''feat'') (\<lambda>f1.
      ebind (cols_to 3 f1) (\<lambda>xyz.
      ebind (getitem (ndata g_input) ''feat'') (\<lambda>f2.
      ebind (cols_from 3 f2) (\<lambda>em.
      ebind (getitem (ndata g_input) ''weight'') (\<lambda>w.
      ebind (net g_input) (\<lambda>(hits_emb, g').
        Inr (acc\<lparr>pid := pid acc @ [p],
                 orig_xyz := orig_xyz acc @ [xyz],
                 emb_metric := emb_metric acc @ [em],
                 weight_list := weight_list acc @ [w],
                 emb_gnn := emb_gnn acc @ [hits_emb]\<rparr>))))))))))"

fun embed_loop ::
  "(DGLGraph \<Rightarrow> error + tensor \<times> DGLGraph) \<Rightarrow> (DGLGraph \<times> DGLGraph) list \<Rightarrow> Embedded
     \<Rightarrow> error + Embedded" where
  "embed_loop net [] acc = Inr acc"
| "embed_loop net (batch # rest) acc =
     ebind (embed_sample net batch acc) (\<lambda>acc. embed_loop net rest acc)"

definition no_samples :: Embedded where
  "no_samples = \<lparr>orig_xyz = [], emb_metric = [], emb_gnn = [], pid = [], weight_list = []\<rparr>"

section \<open>Clustering and scoring\<close>

text \<open>
  \<^verbatim>\<open>
  c = DBSCAN(eps=.24, min_samples=3)

  def get_clusters(embedding):
      return c.fit_predict(embedding)
  \<close>
  \<^verbatim>\<open>DBSCAN\<close> is scikit-learn's: the model keeps the two parameters the notebook sets
  and takes \<^verbatim>\<open>fit_predict\<close>, which gives every row a cluster label, as a function.
  The object \<^verbatim>\<open>c\<close> is \<open>c_DBSCAN\<close> here.
\<close>

record DBSCAN =
  eps :: real
  min_samples :: nat

definition c_DBSCAN :: DBSCAN where
  "c_DBSCAN = \<lparr>eps = 24 / 100, min_samples = 3\<rparr>"

definition get_clusters :: "(DBSCAN \<Rightarrow> tensor \<Rightarrow> error + int list) \<Rightarrow> tensor \<Rightarrow> error + int list" where
  "get_clusters fit_predict embedding = fit_predict c_DBSCAN embedding"

text \<open>
  \<^verbatim>\<open>
  avg_score = 0.0
  nb_samples = 20
  for i in range(nb_samples):
      clusters = get_clusters(emb_gnn[i])
      hit_ids = np.arange(len(clusters))
      truth = pandas.DataFrame.from_dict({'particle_id':pid[i].numpy(),
                                          'hit_id':hit_ids,
                                          'weight':weight[i].numpy()})
      submission = pandas.DataFrame.from_dict({'hit_id':hit_ids,
                                               'track_id':clusters})
      score = score_event(truth, submission)
      avg_score += score
  print("TrackML score: {:.2f}".format(avg_score / nb_samples))
  \<close>
  A data frame is the list of its rows (the column \<^verbatim>\<open>weight\<close> is \<open>hit_weight\<close>, the list
  \<^verbatim>\<open>weight\<close> is \<open>weight_list\<close>: the linear layer's record has the name). \<^verbatim>\<open>from_dict\<close> raises when its columns differ in
  length. \<^verbatim>\<open>score_event\<close> comes from \<^verbatim>\<open>gnn_utils\<close>; the loop takes it as a function of
  the two tables.
\<close>

record truth_row =
  particle_id :: real
  hit_id :: nat
  hit_weight :: real

record submission_row =
  sub_hit_id :: nat
  track_id :: int

definition list_get :: "'a list \<Rightarrow> nat \<Rightarrow> error + 'a" where
  "list_get xs i = (if i < length xs then Inr (xs ! i) else Inl IndexError)"

definition truth_frame :: "tensor \<Rightarrow> nat list \<Rightarrow> tensor \<Rightarrow> error + truth_row list" where
  "truth_frame p hit_ids w =
     (case (p, w) of
        (T1 ps, T1 ws) \<Rightarrow>
          if length ps = length hit_ids \<and> length ws = length hit_ids
          then Inr (map (\<lambda>(a, h, b). \<lparr>particle_id = a, hit_id = h, hit_weight = b\<rparr>)
                     (zip ps (zip hit_ids ws)))
          else Inl ShapeError
      | _ \<Rightarrow> Inl ShapeError)"

definition submission_frame :: "nat list \<Rightarrow> int list \<Rightarrow> error + submission_row list" where
  "submission_frame hit_ids clusters =
     (if length hit_ids = length clusters
      then Inr (map (\<lambda>(h, t). \<lparr>sub_hit_id = h, track_id = t\<rparr>) (zip hit_ids clusters))
      else Inl ShapeError)"

definition score_clusters ::
  "(truth_row list \<Rightarrow> submission_row list \<Rightarrow> real) \<Rightarrow> Embedded \<Rightarrow> nat \<Rightarrow> int list
     \<Rightarrow> error + real" where
  "score_clusters score_event_fn s i clusters =
     (let hit_ids = [0 ..< length clusters] in
      ebind (list_get (pid s) i) (\<lambda>p.
      ebind (list_get (weight_list s) i) (\<lambda>w.
      ebind (truth_frame p hit_ids w) (\<lambda>truth.
      ebind (submission_frame hit_ids clusters) (\<lambda>submission.
        Inr (score_event_fn truth submission))))))"

definition score_sample ::
  "(DBSCAN \<Rightarrow> tensor \<Rightarrow> error + int list) \<Rightarrow> (truth_row list \<Rightarrow> submission_row list \<Rightarrow> real)
     \<Rightarrow> Embedded \<Rightarrow> nat \<Rightarrow> error + real" where
  "score_sample fit_predict score_event_fn s i =
     ebind (list_get (emb_gnn s) i) (\<lambda>e.
     ebind (get_clusters fit_predict e) (\<lambda>clusters.
       score_clusters score_event_fn s i clusters))"

fun score_loop ::
  "(DBSCAN \<Rightarrow> tensor \<Rightarrow> error + int list) \<Rightarrow> (truth_row list \<Rightarrow> submission_row list \<Rightarrow> real)
     \<Rightarrow> Embedded \<Rightarrow> nat list \<Rightarrow> real \<Rightarrow> error + real" where
  "score_loop fit_predict score_event_fn s [] avg_score = Inr avg_score"
| "score_loop fit_predict score_event_fn s (i # rest) avg_score =
     ebind (score_sample fit_predict score_event_fn s i) (\<lambda>score.
       score_loop fit_predict score_event_fn s rest (avg_score + score))"

definition nb_samples :: nat where
  "nb_samples = 20"

definition final_score ::
  "(DBSCAN \<Rightarrow> tensor \<Rightarrow> error + int list) \<Rightarrow> (truth_row list \<Rightarrow> submission_row list \<Rightarrow> real)
     \<Rightarrow> Embedded \<Rightarrow> error + real" where
  "final_score fit_predict score_event_fn s =
     ebind (score_loop fit_predict score_event_fn s [0 ..< nb_samples] 0) (\<lambda>avg_score.
       Inr (avg_score / real nb_samples))"

section \<open>The TrackML score\<close>

text \<open>
  Modelled from the spec: \<^verbatim>\<open>score_event\<close> of \<^verbatim>\<open>gnn_utils\<close>, which is not among the
  sources. The spec calls the TrackML score "a competition-specific metric rewarding
  clusters that both dominate and are dominated by a single true particle's hits". A
  predicted cluster \<open>t\<close> and a particle \<open>p\<close> are matched when the hits they share are more
  than half of the cluster's hits and more than half of the particle's hits; a matched
  cluster is credited with the weight of the shared hits, any other cluster with
  nothing, and the score is the credit of all clusters over the weight of all hits (the
  spec does not say what an event of weight zero scores; the model gives it 0).
\<close>

definition track_hits :: "submission_row list \<Rightarrow> int \<Rightarrow> nat list" where
  "track_hits submission t = map sub_hit_id (filter (\<lambda>r. track_id r = t) submission)"

definition particle_hits :: "truth_row list \<Rightarrow> real \<Rightarrow> nat list" where
  "particle_hits truth p = map hit_id (filter (\<lambda>r. particle_id r = p) truth)"

definition shared_hits :: "truth_row list \<Rightarrow> submission_row list \<Rightarrow> int \<Rightarrow> real \<Rightarrow> nat list" where
  "shared_hits truth submission t p =
     filter (\<lambda>h. h \<in> set (track_hits submission t)) (particle_hits truth p)"

definition matched :: "truth_row list \<Rightarrow> submission_row list \<Rightarrow> int \<Rightarrow> real \<Rightarrow> bool" where
  "matched truth submission t p \<longleftrightarrow>
     length (track_hits submission t) < 2 * length (shared_hits truth submission t p)
     \<and> length (particle_hits truth p) < 2 * length (shared_hits truth submission t p)"

definition shared_weight :: "truth_row list \<Rightarrow> submission_row list \<Rightarrow> int \<Rightarrow> real \<Rightarrow> real" where
  "shared_weight truth submission t p =
     sum_list (map hit_weight
       (filter (\<lambda>r. particle_id r = p \<and> hit_id r \<in> set (track_hits submission t)) truth))"

definition track_credit :: "truth_row list \<Rightarrow> submission_row list \<Rightarrow> int \<Rightarrow> real" where
  "track_credit truth submission t =
     (\<Sum>p \<leftarrow> remdups (map particle_id truth).
        if matched truth submission t p then shared_weight truth submission t p else 0)"

definition score_event :: "truth_row list \<Rightarrow> submission_row list \<Rightarrow> real" where
  "score_event truth submission =
     (let total = sum_list (map hit_weight truth)
      in if total = 0 then 0
         else (\<Sum>t \<leftarrow> remdups (map track_id submission). track_credit truth submission t)
                / total)"

section \<open>The notebook from top to bottom\<close>

text \<open>
  \<^verbatim>\<open>
  with open('tracks.pickle', 'rb') as f:
      samples = pickle.load(f)
  \<close>
  The files of the working directory and the record of every \<^verbatim>\<open>open\<close> call make the
  world of the notebook. No other cell of the notebook calls \<^verbatim>\<open>open\<close> or names a path.
\<close>

datatype open_mode = ReadBinary

record World =
  files :: "string \<rightharpoonup> string"
  opened :: "(string \<times> open_mode) list"

definition open_rb :: "string \<Rightarrow> World \<Rightarrow> error + string \<times> World" where
  "open_rb path w =
     (case files w path of
        None \<Rightarrow> Inl FileNotFoundError
      | Some bytes \<Rightarrow> Inr (bytes, w\<lparr>opened := opened w @ [(path, ReadBinary)]\<rparr>))"

text \<open>
  What the notebook takes from libraries and from \<^verbatim>\<open>gnn_utils\<close>: unpickling, the
  printing and plotting of samples, \<^verbatim>\<open>TrackML_Dataset\<close>, the training of the network (the
  optimiser and the gradients are PyTorch's), \<^verbatim>\<open>fit_predict\<close> and \<^verbatim>\<open>score_event\<close>. They
  are functions of their arguments: none of them is given a path or a file.
\<close>

record 's Lib =
  lib_unpickle :: "string \<Rightarrow> error + 's"
  lib_inspect :: "'s \<Rightarrow> error + unit"
  lib_TrackML_Dataset :: "'s \<Rightarrow> (DGLGraph \<times> DGLGraph) list"
  lib_train :: "(DGLGraph \<times> DGLGraph) list \<Rightarrow> GNN"
  lib_fit_predict :: "DBSCAN \<Rightarrow> tensor \<Rightarrow> error + int list"
  lib_score_event :: "truth_row list \<Rightarrow> submission_row list \<Rightarrow> real"

text \<open>The variables of the notebook that one cell defines and a later cell reads; a
  variable that no cell has defined yet is \<open>None\<close>, and reading it raises.\<close>

record 's Notebook =
  world :: World
  var_samples :: "'s option"
  var_dataset :: "(DGLGraph \<times> DGLGraph) list option"
  var_net :: "GNN option"
  var_embedded :: "Embedded option"
  var_avg_score :: "real option"

definition fresh :: "World \<Rightarrow> 's Notebook" where
  "fresh w = \<lparr>world = w, var_samples = None, var_dataset = None, var_net = None,
              var_embedded = None, var_avg_score = None\<rparr>"

text \<open>Loading data: the cell that opens the file.\<close>

definition cell_load :: "'s Lib \<Rightarrow> 's Notebook \<Rightarrow> error + 's Notebook" where
  "cell_load lib nb =
     ebind (open_rb ''tracks.pickle'' (world nb)) (\<lambda>(bytes, w).
     ebind (lib_unpickle lib bytes) (\<lambda>s.
       Inr (nb\<lparr>world := w, var_samples := Some s\<rparr>)))"

text \<open>The cells that print the keys of \<^verbatim>\<open>samples[0]\<close> and plot \<^verbatim>\<open>samples[1]\<close>.\<close>

definition cell_inspect :: "'s Lib \<Rightarrow> 's Notebook \<Rightarrow> error + 's Notebook" where
  "cell_inspect lib nb =
     (case var_samples nb of
        None \<Rightarrow> Inl NameError
      | Some s \<Rightarrow> ebind (lib_inspect lib s) (\<lambda>_. Inr nb))"

text \<open>Setup: \<^verbatim>\<open>dataset = TrackML_Dataset(samples)\<close>.\<close>

definition cell_setup :: "'s Lib \<Rightarrow> 's Notebook \<Rightarrow> error + 's Notebook" where
  "cell_setup lib nb =
     (case var_samples nb of
        None \<Rightarrow> Inl NameError
      | Some s \<Rightarrow> Inr (nb\<lparr>var_dataset := Some (lib_TrackML_Dataset lib s)\<rparr>))"

text \<open>Training: twenty epochs over the data set leave a trained network.\<close>

definition cell_train :: "'s Lib \<Rightarrow> 's Notebook \<Rightarrow> error + 's Notebook" where
  "cell_train lib nb =
     (case var_dataset nb of
        None \<Rightarrow> Inl NameError
      | Some d \<Rightarrow> Inr (nb\<lparr>var_net := Some (lib_train lib d)\<rparr>))"

text \<open>Clustering: the embedding loop over the data set, one sample a batch.\<close>

definition cell_embed :: "'s Lib \<Rightarrow> 's Notebook \<Rightarrow> error + 's Notebook" where
  "cell_embed lib nb =
     (case var_dataset nb of
        None \<Rightarrow> Inl NameError
      | Some d \<Rightarrow>
          (case var_net nb of
             None \<Rightarrow> Inl NameError
           | Some n \<Rightarrow> ebind (embed_loop (GNN_forward n) d no_samples) (\<lambda>e.
                         Inr (nb\<lparr>var_embedded := Some e\<rparr>))))"

text \<open>Scoring: the loop over the first twenty samples.\<close>

definition cell_score :: "'s Lib \<Rightarrow> 's Notebook \<Rightarrow> error + 's Notebook" where
  "cell_score lib nb =
     (case var_embedded nb of
        None \<Rightarrow> Inl NameError
      | Some e \<Rightarrow> ebind (final_score (lib_fit_predict lib) (lib_score_event lib) e) (\<lambda>a.
                    Inr (nb\<lparr>var_avg_score := Some a\<rparr>)))"

definition run_notebook :: "'s Lib \<Rightarrow> World \<Rightarrow> error + 's Notebook" where
  "run_notebook lib w =
     ebind (cell_load lib (fresh w)) (\<lambda>nb.
     ebind (cell_inspect lib nb) (\<lambda>nb.
     ebind (cell_setup lib nb) (\<lambda>nb.
     ebind (cell_train lib nb) (\<lambda>nb.
     ebind (cell_embed lib nb) (\<lambda>nb.
     cell_score lib nb)))))"

text \<open>
  The two tables as the claim words them: row \<open>k\<close> of the truth table holds the
  particle id and the weight of hit \<open>k\<close>, row \<open>k\<close> of the submission holds the cluster
  label of hit \<open>k\<close>, and \<open>hit_id\<close> is \<open>k\<close> in both.
\<close>

definition truth_table :: "vec \<Rightarrow> vec \<Rightarrow> truth_row list" where
  "truth_table ps ws =
     map (\<lambda>k. \<lparr>particle_id = ps ! k, hit_id = k, hit_weight = ws ! k\<rparr>) [0 ..< length ps]"

definition submission_table :: "int list \<Rightarrow> submission_row list" where
  "submission_table cl = map (\<lambda>k. \<lparr>sub_hit_id = k, track_id = cl ! k\<rparr>) [0 ..< length cl]"


section \<open>Auxiliary notions for the proofs\<close>

text \<open>A list of linear layers fits an input of width \<open>d\<close> when every layer takes what
  the one before it gives.\<close>

fun fits :: "nat \<Rightarrow> Linear list \<Rightarrow> bool" where
  "fits d [] = True"
| "fits d (l # ls) = (Linear_shape d (out_features l) l \<and> fits (out_features l) ls)"

definition width_after :: "nat \<Rightarrow> Linear list \<Rightarrow> nat" where
  "width_after d ls = foldl (\<lambda>w l. out_features l) d ls"

text \<open>The message on edge \<open>e\<close>: the source's features times the weight of the edge.\<close>

definition scaled :: "MLP_Kernel_DGL \<Rightarrow> mat \<Rightarrow> nat \<times> nat \<Rightarrow> vec" where
  "scaled k x e = map (\<lambda>a. a * hd (edge_weight k (x ! fst e) (x ! snd e))) (x ! fst e)"

text \<open>What one pass of the embedding loop appends for a sample.\<close>

definition sample_ok ::
  "(DGLGraph \<Rightarrow> error + tensor \<times> DGLGraph) \<Rightarrow> DGLGraph \<times> DGLGraph
     \<Rightarrow> tensor \<Rightarrow> tensor \<Rightarrow> tensor \<Rightarrow> tensor \<Rightarrow> tensor \<Rightarrow> bool" where
  "sample_ok net b p x e w h \<longleftrightarrow>
     (\<exists>f g'. ndata (fst b) ''feat'' = Some (T2 f) \<and> ndata (fst b) ''pid'' = Some p
        \<and> ndata (fst b) ''weight'' = Some w \<and> net (fst b) = Inr (h, g')
        \<and> x = T2 (map (take 3) f) \<and> e = T2 (map (drop 3) f))"

section \<open>Example inputs\<close>

text \<open>A ground-truth graph of two hits at one place of the embedding space, joined both
  ways; the first edge is labelled as a true pair and the second as a false pair.\<close>

definition g_loss :: DGLGraph where
  "g_loss = \<lparr>num_nodes = 2, edges = [(0, 1), (1, 0)],
             ndata = [''emb'' \<mapsto> T2 [[0, 0], [0, 0]]],
             edata = [''truth'' \<mapsto> T1 [1, 0]]\<rparr>"

text \<open>
  A layer on one-dimensional features: its kernel has one hidden layer and one output,
  as the constructor of \<^verbatim>\<open>GNN_Layer\<close> builds it; the normalisation of the example
  subtracts 2, the mean of the batch \<open>[[1], [3]]\<close>. The graph joins two hits both ways.
\<close>

definition kernel_ex :: MLP_Kernel_DGL where
  "kernel_ex = \<lparr>layers =
     [\<lparr>in_features = 2, out_features = 1, weight = [[1, - 1]], bias = [0]\<rparr>,
      \<lparr>in_features = 1, out_features = 1, weight = [[2]], bias = [- 1]\<rparr>]\<rparr>"

definition layer_ex :: GNN_Layer where
  "layer_ex = \<lparr>edge_weighting = kernel_ex,
               bn = Some (\<lambda>t. Inr (tensor_map (\<lambda>v. v - 2) t)),
               fc = \<lparr>in_features = 2, out_features = 1, weight = [[1, 1]], bias = [0]\<rparr>\<rparr>"



definition g_ex :: DGLGraph where
  "g_ex = \<lparr>num_nodes = 2, edges = [(0, 1), (1, 0)], ndata = Map.empty, edata = Map.empty\<rparr>"

definition g_feat_ex :: DGLGraph where
  "g_feat_ex = \<lparr>num_nodes = 2, edges = [(0, 1), (1, 0)],
                ndata = [''feat'' \<mapsto> T2 [[- 1], [1]]], edata = Map.empty\<rparr>"

text \<open>
  A network of one layer on four-dimensional features (three coordinates and a
  one-dimensional metric embedding) whose kernel has zero parameters, so that every edge
  weighs \<open>1 / 2\<close>; its normalisation subtracts the column means of the example batch.
  The data set holds the same sample of two hits twenty times. The stand-in for
  \<^verbatim>\<open>fit_predict\<close> labels a row by comparing its first entry with \<open>eps\<close>, and the stand-in
  for \<^verbatim>\<open>score_event\<close> adds the weights of the hits in cluster 0.
\<close>

definition kernel_zero :: MLP_Kernel_DGL where
  "kernel_zero = \<lparr>layers =
     [\<lparr>in_features = 8, out_features = 1, weight = [[0, 0, 0, 0, 0, 0, 0, 0]], bias = [0]\<rparr>,
      \<lparr>in_features = 1, out_features = 1, weight = [[0]], bias = [0]\<rparr>]\<rparr>"

definition bn_centre :: "tensor \<Rightarrow> error + tensor" where
  "bn_centre t =
     (case t of T2 m \<Rightarrow> Inr (T2 (map (\<lambda>r. map2 (\<lambda>a b. a - b) r [0, 3 / 2, 0, 1]) m))
              | T1 v \<Rightarrow> Inl ShapeError)"

definition layer_four :: GNN_Layer where
  "layer_four = \<lparr>edge_weighting = kernel_zero, bn = Some bn_centre,
     fc = \<lparr>in_features = 8, out_features = 2,
            weight = [[0, 2, 0, 0, 0, 0, 0, 0], [0, 0, 0, 0, 0, 4, 0, 0]], bias = [0, 0]\<rparr>\<rparr>"

definition gnn_ex :: GNN where
  "gnn_ex = \<lparr>gnn_layers = [layer_four],
             final_emb = \<lparr>in_features = 2, out_features = 2,
                           weight = [[1, 0], [0, 1]], bias = [0, 0]\<rparr>\<rparr>"

definition g_sample :: DGLGraph where
  "g_sample = \<lparr>num_nodes = 2, edges = [(0, 1), (1, 0)],
     ndata = [''feat'' \<mapsto> T2 [[0, 1, 0, 1], [0, 2, 0, 1]],
              ''pid'' \<mapsto> T1 [7, 7], ''weight'' \<mapsto> T1 [1 / 2, 1 / 2]],
     edata = Map.empty\<rparr>"


definition batches_ex :: "(DGLGraph \<times> DGLGraph) list" where
  "batches_ex = replicate 20 (g_sample, g_sample)"

definition fit_predict_ex :: "DBSCAN \<Rightarrow> tensor \<Rightarrow> error + int list" where
  "fit_predict_ex cfg t =
     (case t of
        T2 m \<Rightarrow> Inr (map (\<lambda>r. case r of [] \<Rightarrow> - 1 | a # _ \<Rightarrow> if a < eps cfg then 0 else 1) m)
      | T1 v \<Rightarrow> Inl ShapeError)"

definition score_ex :: "truth_row list \<Rightarrow> submission_row list \<Rightarrow> real" where
  "score_ex truth submission =
     sum_list (map2 (\<lambda>t u. if track_id u = 0 then hit_weight t else 0) truth submission)"

definition embedded_ex :: Embedded where
  "embedded_ex =
     \<lparr>orig_xyz = replicate 20 (T2 [[0, 1, 0], [0, 2, 0]]),
      emb_metric = replicate 20 (T2 [[1], [1]]),
      emb_gnn = replicate 20 (T2 [[0, 1], [1, 0]]),
      pid = replicate 20 (T1 [7, 7]),
      weight_list = replicate 20 (T1 [1 / 2, 1 / 2])\<rparr>"

text \<open>
  An event of four hits of equal weight, two of particle 7 and two of particle 8: the
  submission puts the hits of particle 7 in cluster 0, one hit of particle 8 in cluster
  1 and leaves the other as noise.
\<close>

definition truth_ex :: "truth_row list" where
  "truth_ex = [\<lparr>particle_id = 7, hit_id = 0, hit_weight = 1 / 4\<rparr>,
               \<lparr>particle_id = 7, hit_id = 1, hit_weight = 1 / 4\<rparr>,
               \<lparr>particle_id = 8, hit_id = 2, hit_weight = 1 / 4\<rparr>,
               \<lparr>particle_id = 8, hit_id = 3, hit_weight = 1 / 4\<rparr>]"

definition submission_ex :: "submission_row list" where
  "submission_ex = [\<lparr>sub_hit_id = 0, track_id = 0\<rparr>, \<lparr>sub_hit_id = 1, track_id = 0\<rparr>,
                    \<lparr>sub_hit_id = 2, track_id = 1\<rparr>, \<lparr>sub_hit_id = 3, track_id = - 1\<rparr>]"

text \<open>
  A working directory that holds \<^verbatim>\<open>tracks.pickle\<close> and stand-ins for the library:
  unpickling the file gives twenty samples, the data set is the example sample twenty
  times, and training leaves the example network.
\<close>

definition lib_ex :: "nat Lib" where
  "lib_ex = \<lparr>lib_unpickle = (\<lambda>bytes. if bytes = ''twenty samples'' then Inr 20
                                      else Inl UnpicklingError),
             lib_inspect = (\<lambda>s. if 2 \<le> s then Inr () else Inl IndexError),
             lib_TrackML_Dataset = (\<lambda>s. replicate s (g_sample, g_sample)),
             lib_train = (\<lambda>d. gnn_ex),
             lib_fit_predict = fit_predict_ex,
             lib_score_event = score_ex\<rparr>"

definition world_ex :: World where
  "world_ex = \<lparr>files = [''tracks.pickle'' \<mapsto> ''twenty samples''], opened = []\<rparr>"

section \<open>Auxiliary facts\<close>

lemma ebind_Inr [simp]: "ebind (Inr v) f = f v"
  by (simp add: ebind_def)

lemma ebind_Inl [simp]: "ebind (Inl e) f = Inl e"
  by (simp add: ebind_def)

lemma sequence_map_Inr [simp]: "sequence (map (\<lambda>x. Inr (f x)) xs) = Inr (map f xs)"
  by (induction xs) simp_all

lemma broadcast2_same [simp]: "length a = length b \<Longrightarrow> broadcast2 f a b = Inr (map2 f a b)"
  by (simp add: broadcast2_def)

section \<open>Properties of the accuracy proxy\<close>

lemma count_correct_agree:
  assumes "length true = length pred" and "set true \<subseteq> {0, 1}"
  shows "length (filter (\<lambda>c. c)
           (map2 (\<lambda>x y. x = y)
              (map (\<lambda>p. 1 - p) (map (\<lambda>p. if p \<noteq> 0 then 1 else p) (map torch_round pred)))
              true))
         = agreeing_pairs pred true"
  using assms
proof (induction pred arbitrary: true)
  case Nil
  then show ?case by (simp add: agreeing_pairs_def)
next
  case (Cons p ps)
  then obtain t ts where tt: "true = t # ts" by (cases true) auto
  with Cons.prems have len: "length ts = length ps" and sub: "set ts \<subseteq> {0, 1}"
    and t01: "t = 0 \<or> t = 1" by auto
  from Cons.IH [OF len sub] t01 show ?case
    unfolding tt agreeing_pairs_def by auto
qed

text \<open>
  C10. For a non-empty vector of predicted distances and a truth vector of the same
  length with entries 0 or 1, \<open>score_dist_accuracy\<close> returns the number of positions
  where "the rounded distance is zero" coincides with "the label is one", divided by
  the number of positions, and that value lies between 0 and 1.
\<close>

theorem score_dist_accuracy_fraction:
  assumes "pred \<noteq> []" and "length true = length pred" and "set true \<subseteq> {0, 1}"
  shows "score_dist_accuracy pred true
           = Inr (real (agreeing_pairs pred true) / real (length pred))
         \<and> 0 \<le> real (agreeing_pairs pred true) / real (length pred)
         \<and> real (agreeing_pairs pred true) / real (length pred) \<le> 1"
proof -
  have le: "agreeing_pairs pred true \<le> length pred"
    unfolding agreeing_pairs_def
    by (rule order_trans [OF length_filter_le]) simp
  have eq: "score_dist_accuracy pred true
              = Inr (real (agreeing_pairs pred true) / real (length pred))"
    using assms count_correct_agree [OF assms(2,3)]
    by (simp add: score_dist_accuracy_def tensor_eq_def broadcast2_def Let_def)
  from le assms(1) have "real (agreeing_pairs pred true) / real (length pred) \<le> 1"
    by simp
  with eq show ?thesis by simp
qed

theorem score_dist_accuracy_fraction_witness:
  "[1 / 5, 7 / 10, 3 / 2, 1 / 2] \<noteq> ([] :: vec)
   \<and> length [1, 0, 1, 1 :: real] = length [1 / 5, 7 / 10, 3 / 2, 1 / 2 :: real]
   \<and> set [1, 0, 1, 1 :: real] \<subseteq> {0, 1}
   \<and> agreeing_pairs [1 / 5, 7 / 10, 3 / 2, 1 / 2] [1, 0, 1, 1] = 3
   \<and> score_dist_accuracy [1 / 5, 7 / 10, 3 / 2, 1 / 2] [1, 0, 1, 1] = Inr (3 / 4)"
proof -
  have r: "torch_round (1 / 5) = 0" "torch_round (7 / 10) = 1"
          "torch_round (3 / 2) = 2" "torch_round (1 / 2) = 0"
    by (simp_all add: torch_round_def Let_def)
  have a: "agreeing_pairs [1 / 5, 7 / 10, 3 / 2, 1 / 2] [1, 0, 1, 1] = 3"
    by (simp add: agreeing_pairs_def r)
  have h1: "[1 / 5, 7 / 10, 3 / 2, 1 / 2] \<noteq> ([] :: vec)" by simp
  have h2: "length [1, 0, 1, 1 :: real] = length [1 / 5, 7 / 10, 3 / 2, 1 / 2 :: real]"
    by simp
  have h3: "set [1, 0, 1, 1 :: real] \<subseteq> {0, 1}" by simp
  from score_dist_accuracy_fraction [OF h1 h2 h3] a h1 h2 h3 show ?thesis by simp
qed

section \<open>Properties of the loss\<close>

lemma row_distance_same:
  "length u = length v \<Longrightarrow> row_distance u v = Inr (eps_distance u v)"
  by (simp add: row_distance_def eps_distance_def norm2_def comp_def case_prod_unfold)

lemma gather_T2:
  "list_all (\<lambda>i. i < length m) idx \<Longrightarrow> gather idx (T2 m) = Inr (T2 (map (\<lambda>i. m ! i) idx))"
  by simp

lemma pairwise_distance_gathered:
  assumes "list_all (\<lambda>r. length r = d) m"
    and "list_all (\<lambda>(i, j). i < length m \<and> j < length m) es"
  shows "pairwise_distance (T2 (map (\<lambda>i. m ! i) (map fst es))) (T2 (map (\<lambda>i. m ! i) (map snd es)))
           = Inr (T1 (map (\<lambda>(i, j). eps_distance (m ! i) (m ! j)) es))"
proof -
  have len: "length (m ! i) = length (m ! j)" if "(i, j) \<in> set es" for i j
    using assms that by (auto simp: list_all_iff)
  have "map2 row_distance (map (\<lambda>i. m ! i) (map fst es)) (map (\<lambda>i. m ! i) (map snd es))
          = map (\<lambda>(i, j). Inr (eps_distance (m ! i) (m ! j))) es"
    using len by (induction es) (auto simp: row_distance_same)
  then show ?thesis
    by (simp add: case_prod_unfold)
qed

lemma foldl_upd_loss:
  "foldl (\<lambda>f (k, t). f(k \<mapsto> t)) fr
     [(''loss'', a), (''pred_dist'', b), (''true_dist'', c)]
   = fr(''loss'' \<mapsto> a, ''pred_dist'' \<mapsto> b, ''true_dist'' \<mapsto> c)"
  by simp

lemma apply_edges_get_emb_for_loss:
  assumes emb: "ndata g ''emb'' = Some (T2 emb)"
    and truth: "edata g ''truth'' = Some (T1 truth)"
    and len: "length truth = length (edges g)"
    and valid: "list_all (\<lambda>(i, j). i < length emb \<and> j < length emb) (edges g)"
    and uniform: "list_all (\<lambda>r. length r = d) emb"
  shows "apply_edges get_emb_for_loss g =
           Inr (g\<lparr>edata := (edata g)
             (''loss'' \<mapsto> T1 (map2 hinge_elem
                  (map (\<lambda>(i, j). eps_distance (emb ! i) (emb ! j)) (edges g))
                  (map (\<lambda>t. t * 2 - 1) truth)),
              ''pred_dist'' \<mapsto> T1 (map (\<lambda>(i, j). eps_distance (emb ! i) (emb ! j)) (edges g)),
              ''true_dist'' \<mapsto> T1 (map (\<lambda>t. t * 2 - 1) truth))\<rparr>)"
proof -
  from valid have v1: "list_all (\<lambda>i. i < length emb) (map fst (edges g))"
    and v2: "list_all (\<lambda>i. i < length emb) (map snd (edges g))"
    by (auto simp: list_all_iff)
  have s: "src (edge_batch g) ''emb'' = Inr (T2 (map (\<lambda>i. emb ! i) (map fst (edges g))))"
    using emb v1 by (simp add: edge_batch_def getitem_def)
  have d: "dst (edge_batch g) ''emb'' = Inr (T2 (map (\<lambda>i. emb ! i) (map snd (edges g))))"
    using emb v2 by (simp add: edge_batch_def getitem_def)
  have t: "data (edge_batch g) ''truth'' = Inr (T1 truth)"
    using truth by (simp add: edge_batch_def getitem_def)
  have r: "get_emb_for_loss (edge_batch g) =
      Inr [(''loss'', T1 (map2 hinge_elem
                  (map (\<lambda>(i, j). eps_distance (emb ! i) (emb ! j)) (edges g))
                  (map (\<lambda>t. t * 2 - 1) truth))),
           (''pred_dist'', T1 (map (\<lambda>(i, j). eps_distance (emb ! i) (emb ! j)) (edges g))),
           (''true_dist'', T1 (map (\<lambda>t. t * 2 - 1) truth))]"
    unfolding get_emb_for_loss_def s d t ebind_Inr pairwise_distance_gathered [OF uniform valid]
    by (simp add: len Let_def)
  show ?thesis
    unfolding apply_edges_def r by (simp add: len)
qed

lemma hinge_elem_binary:
  "t = 0 \<or> t = 1 \<Longrightarrow>
     hinge_elem x (t * 2 - 1) = (if t = 1 then x else max 0 (1 - x))"
  by (auto simp: hinge_elem_def max_def)

text \<open>
  C3 (amended). For every edge \<open>(i, j)\<close> of the ground-truth graph with a label 0 or 1,
  \<^verbatim>\<open>get_emb_for_loss\<close> gives the hinge target \<open>2 * truth - 1\<close>, the distance
  \<open>pred_dist\<close> that \<^verbatim>\<open>pairwise_distance\<close> computes, the 2-norm of \<open>u - v + 1e-6\<close>,
  and the loss \<open>pred_dist\<close> when the label is 1 and \<open>max 0 (1 - pred_dist)\<close> when the
  label is 0.
\<close>

theorem get_emb_for_loss_hinge:
  assumes emb: "ndata g ''emb'' = Some (T2 emb)"
    and truth: "edata g ''truth'' = Some (T1 truth)"
    and len: "length truth = length (edges g)"
    and valid: "list_all (\<lambda>(i, j). i < length emb \<and> j < length emb) (edges g)"
    and uniform: "list_all (\<lambda>r. length r = d) emb"
    and n: "n < length (edges g)"
    and e: "edges g ! n = (i, j)"
    and bin: "truth ! n = 0 \<or> truth ! n = 1"
  shows "ebind (apply_edges get_emb_for_loss g) (\<lambda>g'. edge_scalar g' ''true_dist'' n)
           = Inr (2 * truth ! n - 1)
       \<and> ebind (apply_edges get_emb_for_loss g) (\<lambda>g'. edge_scalar g' ''pred_dist'' n)
           = Inr (eps_distance (emb ! i) (emb ! j))
       \<and> ebind (apply_edges get_emb_for_loss g) (\<lambda>g'. edge_scalar g' ''loss'' n)
           = Inr (if truth ! n = 1 then eps_distance (emb ! i) (emb ! j)
                  else max 0 (1 - eps_distance (emb ! i) (emb ! j)))"
proof -
  note ae = apply_edges_get_emb_for_loss [OF emb truth len valid uniform]
  have a: "ebind (apply_edges get_emb_for_loss g) (\<lambda>g'. edge_scalar g' ''true_dist'' n)
           = Inr (2 * truth ! n - 1)"
    unfolding ae using n len by (simp add: edge_scalar_def getitem_def)
  have b: "ebind (apply_edges get_emb_for_loss g) (\<lambda>g'. edge_scalar g' ''pred_dist'' n)
           = Inr (eps_distance (emb ! i) (emb ! j))"
    unfolding ae using n e by (simp add: edge_scalar_def getitem_def)
  have c: "ebind (apply_edges get_emb_for_loss g) (\<lambda>g'. edge_scalar g' ''loss'' n)
           = Inr (if truth ! n = 1 then eps_distance (emb ! i) (emb ! j)
                  else max 0 (1 - eps_distance (emb ! i) (emb ! j)))"
    unfolding ae using n e len hinge_elem_binary [OF bin]
    by (simp add: edge_scalar_def getitem_def)
  from a b c show ?thesis by blast
qed

lemma eps_distance_zero: "eps_distance [0, 0] [0, 0] = sqrt 2 / 1000000"
proof -
  have "eps_distance [0, 0] [0, 0] = sqrt (2 * (1 / 1000000)\<^sup>2)"
    by (simp add: eps_distance_def pairwise_eps_def)
  also have "\<dots> = sqrt 2 * \<bar>1 / 1000000\<bar>"
    by (simp only: real_sqrt_mult real_sqrt_abs)
  finally show ?thesis by simp
qed

text \<open>
  C3 as stated fails: on two hits with equal embeddings and a true pair between them
  the loss is \<open>sqrt 2 / 1000000\<close>, while their Euclidean distance is 0.
\<close>

theorem get_emb_for_loss_euclidean_counterexample:
  "ebind (apply_edges get_emb_for_loss g_loss) (\<lambda>g'. edge_scalar g' ''loss'' 0)
     = Inr (sqrt 2 / 1000000)
   \<and> edges g_loss ! 0 = (0, 1)
   \<and> euclidean_distance [0, 0] [0, 0] = 0
   \<and> sqrt 2 / 1000000 \<noteq> euclidean_distance [0, 0] [0, 0]"
proof -
  have ae: "apply_edges get_emb_for_loss g_loss =
           Inr (g_loss\<lparr>edata := (edata g_loss)
             (''loss'' \<mapsto> T1 (map2 hinge_elem
                  (map (\<lambda>(i, j). eps_distance ([[0, 0], [0, 0]] ! i) ([[0, 0], [0, 0]] ! j)) (edges g_loss))
                  (map (\<lambda>t. t * 2 - 1) [1, 0])),
              ''pred_dist'' \<mapsto> T1 (map (\<lambda>(i, j). eps_distance ([[0, 0], [0, 0]] ! i) ([[0, 0], [0, 0]] ! j)) (edges g_loss)),
              ''true_dist'' \<mapsto> T1 (map (\<lambda>t. t * 2 - 1) [1, 0]))\<rparr>)"
    by (rule apply_edges_get_emb_for_loss [where d = 2]) (simp_all add: g_loss_def)
  have l: "ebind (apply_edges get_emb_for_loss g_loss) (\<lambda>g'. edge_scalar g' ''loss'' 0)
     = Inr (sqrt 2 / 1000000)"
    unfolding ae
    by (simp add: edge_scalar_def getitem_def g_loss_def hinge_elem_def eps_distance_zero)
  have z: "euclidean_distance [0, 0] [0, 0] = 0"
    by (simp add: euclidean_distance_def)
  from l z show ?thesis by (simp add: g_loss_def)
qed

theorem get_emb_for_loss_hinge_witness:
  "ebind (apply_edges get_emb_for_loss g_loss) (\<lambda>g'. edge_scalar g' ''true_dist'' 1) = Inr (- 1)
   \<and> ebind (apply_edges get_emb_for_loss g_loss) (\<lambda>g'. edge_scalar g' ''loss'' 1)
       = Inr (1 - sqrt 2 / 1000000)"
proof -
  have le: "sqrt 2 / 1000000 \<le> 1"
  proof -
    have "sqrt 2 \<le> (2 :: real)" by (rule real_le_lsqrt) simp_all
    then show ?thesis by simp
  qed
  have "ndata g_loss ''emb'' = Some (T2 [[0, 0], [0, 0]])"
    and "edata g_loss ''truth'' = Some (T1 [1, 0])"
    and "length [1, 0 :: real] = length (edges g_loss)"
    and "list_all (\<lambda>(i, j). i < length [[0, 0], [0, 0 :: real]] \<and> j < length [[0, 0], [0, 0 :: real]])
           (edges g_loss)"
    and "list_all (\<lambda>r. length r = 2) [[0, 0], [0, 0 :: real]]"
    and "1 < length (edges g_loss)"
    and "edges g_loss ! 1 = (1, 0)"
    and "[1, 0 :: real] ! 1 = 0 \<or> [1, 0 :: real] ! 1 = 1"
    by (simp_all add: g_loss_def)
  from get_emb_for_loss_hinge [OF this] le show ?thesis
    by (simp add: eps_distance_zero)
qed

section \<open>Properties of the float32 sigmoid\<close>

text \<open>
  Rounding to float32 keeps a number on its side of every power of two, which is a
  float32 itself; so the sigmoid stays between 0 and 1, stores \<open>1 / 2\<close> at 0, and at a
  logit of 40, where \<open>exp (- 40)\<close> is less than half a unit in the last place of 1, it
  stores exactly 1. At a logit of \<open>- 200\<close> the exponential overflows and it stores 0.
\<close>

lemma torch_round_of_int: "torch_round (of_int n) = of_int n"
  by (simp add: torch_round_def Let_def)

lemma torch_round_le:
  assumes "x \<le> of_int n"
  shows "torch_round x \<le> of_int n"
proof (cases "x = of_int n")
  case True
  then show ?thesis by (simp add: torch_round_of_int)
next
  case False
  with assms have "x < of_int n" by simp
  then have "\<lfloor>x\<rfloor> < n" by (simp add: floor_less_iff)
  then have "\<lfloor>x\<rfloor> + 1 \<le> n" by simp
  then have "real_of_int (\<lfloor>x\<rfloor> + 1) \<le> of_int n" and "real_of_int \<lfloor>x\<rfloor> \<le> of_int n"
    by (simp_all only: of_int_le_iff)
  then show ?thesis by (simp add: torch_round_def Let_def)
qed

lemma torch_round_ge:
  assumes "of_int n \<le> x"
  shows "of_int n \<le> torch_round x"
proof -
  from assms have "n \<le> \<lfloor>x\<rfloor>" by (simp add: le_floor_iff)
  then have "real_of_int n \<le> of_int \<lfloor>x\<rfloor>" "real_of_int n \<le> of_int (\<lfloor>x\<rfloor> + 1)"
    by simp_all
  then show ?thesis by (simp add: torch_round_def Let_def)
qed

lemma float32_round_nonneg:
  assumes "0 \<le> y"
  shows "0 \<le> float32_round y"
proof (cases "y = 0")
  case True
  then show ?thesis by (simp add: float32_round_def)
next
  case False
  define ulp where "ulp = (2 :: real) powr (of_int (max \<lfloor>log 2 \<bar>y\<bar>\<rfloor> (- 126)) - 23)"
  have pos: "0 < ulp" by (simp add: ulp_def)
  with assms have "of_int 0 \<le> y / ulp" by simp
  then have "of_int 0 \<le> torch_round (y / ulp)" by (rule torch_round_ge)
  with pos have "0 \<le> torch_round (y / ulp) * ulp" by simp
  with False show ?thesis by (simp add: float32_round_def Let_def ulp_def)
qed

lemma powr_int_nat: "0 \<le> k \<Longrightarrow> (2 :: real) powr of_int k = of_int (2 ^ nat k)"
  by (simp add: powr_realpow [symmetric])

lemma float32_round_le_pow2:
  assumes y: "0 < y" and le: "y \<le> 2 powr of_int k" and k: "- 126 \<le> k"
  shows "float32_round y \<le> 2 powr of_int k"
proof -
  define e where "e = max \<lfloor>log 2 \<bar>y\<bar>\<rfloor> (- 126)"
  define ulp where "ulp = (2 :: real) powr (of_int e - 23)"
  have pos: "0 < ulp" by (simp add: ulp_def)
  from y le have "log 2 y \<le> of_int k" by (simp add: log_le_iff)
  then have "\<lfloor>log 2 y\<rfloor> \<le> k" by (simp add: floor_le_iff)
  with k y have ek: "e \<le> k" by (simp add: e_def)
  have q: "2 powr of_int k / ulp = of_int (2 ^ nat (k - e + 23))"
  proof -
    have "2 powr of_int k / ulp = 2 powr (of_int k - (of_int e - 23))"
      by (simp add: ulp_def powr_diff)
    also have "\<dots> = 2 powr of_int (k - e + 23)" by (simp add: algebra_simps)
    also have "\<dots> = of_int (2 ^ nat (k - e + 23))"
      using ek by (intro powr_int_nat) simp
    finally show ?thesis .
  qed
  from le pos have "y / ulp \<le> 2 powr of_int k / ulp" by (simp add: divide_right_mono)
  with q have "y / ulp \<le> of_int (2 ^ nat (k - e + 23))" by simp
  then have "torch_round (y / ulp) \<le> of_int (2 ^ nat (k - e + 23))" by (rule torch_round_le)
  with pos have "torch_round (y / ulp) * ulp \<le> of_int (2 ^ nat (k - e + 23)) * ulp"
    by (simp add: mult_right_mono)
  also have "\<dots> = 2 powr of_int k" using q pos by (simp add: field_simps)
  finally show ?thesis using y by (simp add: float32_round_def Let_def e_def ulp_def)
qed

lemma float32_round_ge_pow2:
  assumes le: "2 powr of_int k \<le> y" and k: "- 126 \<le> k"
  shows "2 powr of_int k \<le> float32_round y"
proof -
  have y: "0 < y" using le by (rule less_le_trans [rotated]) simp
  define e where "e = max \<lfloor>log 2 \<bar>y\<bar>\<rfloor> (- 126)"
  define ulp where "ulp = (2 :: real) powr (of_int e - 23)"
  have pos: "0 < ulp" by (simp add: ulp_def)
  from y le have "of_int k \<le> log 2 y" by (simp add: le_log_iff)
  then have kf: "k \<le> \<lfloor>log 2 y\<rfloor>" by (simp add: le_floor_iff)
  with k y have e: "e = \<lfloor>log 2 y\<rfloor>" and ke: "k \<le> e" by (simp_all add: e_def)
  have "of_int e \<le> log 2 y" unfolding e by simp
  with y have ey: "2 powr of_int e \<le> y" by (simp add: le_log_iff)
  have q: "2 powr of_int e / ulp = of_int 8388608"
    by (simp add: ulp_def powr_diff [symmetric])
  from ey pos have "2 powr of_int e / ulp \<le> y / ulp" by (simp add: divide_right_mono)
  with q have "of_int 8388608 \<le> y / ulp" by simp
  then have "of_int 8388608 \<le> torch_round (y / ulp)" by (rule torch_round_ge)
  with pos have "of_int 8388608 * ulp \<le> torch_round (y / ulp) * ulp"
    by (simp add: mult_right_mono)
  moreover have "of_int 8388608 * ulp = 2 powr of_int e" using q pos by (simp add: field_simps)
  moreover have "2 powr of_int k \<le> (2 :: real) powr of_int e" using ke by simp
  ultimately have "2 powr of_int k \<le> torch_round (y / ulp) * ulp" by linarith
  then show ?thesis using y by (simp add: float32_round_def Let_def e_def ulp_def)
qed


lemma float32_round_pow2:
  assumes k: "- 126 \<le> k"
  shows "float32_round (2 powr of_int k) = 2 powr of_int k"
proof (rule antisym)
  show "float32_round (2 powr of_int k) \<le> 2 powr of_int k"
    using k by (intro float32_round_le_pow2) simp_all
  show "2 powr of_int k \<le> float32_round (2 powr of_int k)"
    using k by (intro float32_round_ge_pow2) simp_all
qed

lemma float32_round_one: "float32_round 1 = 1"
  using float32_round_pow2 [of 0] by simp

lemma float32_round_two: "float32_round 2 = 2"
  using float32_round_pow2 [of 1] by simp

lemma float32_round_half: "float32_round (1 / 2) = 1 / 2"
  using float32_round_pow2 [of "- 1"] by (simp add: powr_minus_divide)

lemma float32_round_le_one: "0 < y \<Longrightarrow> y \<le> 1 \<Longrightarrow> float32_round y \<le> 1"
  using float32_round_le_pow2 [of y 0] by simp

lemma float32_round_ge_one: "1 \<le> y \<Longrightarrow> 1 \<le> float32_round y"
  using float32_round_ge_pow2 [of 0 y] by simp

lemma sigmoid_bounds: "0 \<le> sigmoid x \<and> sigmoid x \<le> 1"
proof (cases "float32_overflows (exp (- x))")
  case True
  then show ?thesis by (simp add: sigmoid_def)
next
  case False
  define s where "s = float32_round (1 + float32_round (exp (- x)))"
  have "0 \<le> float32_round (exp (- x))" by (rule float32_round_nonneg) simp
  then have "1 \<le> s" unfolding s_def by (intro float32_round_ge_one) simp
  then have "0 < 1 / s" "1 / s \<le> 1" by simp_all
  then have "0 \<le> float32_round (1 / s)" "float32_round (1 / s) \<le> 1"
    by (simp_all add: float32_round_nonneg float32_round_le_one)
  with False show ?thesis by (simp add: sigmoid_def s_def)
qed

lemma not_overflows: "\<bar>t\<bar> \<le> 1 \<Longrightarrow> \<not> float32_overflows t"
  by (simp add: float32_overflows_def)

lemma sigmoid_zero: "sigmoid 0 = 1 / 2"
  by (simp add: sigmoid_def not_overflows float32_round_one float32_round_two float32_round_half)

lemma exp_ge_pow2: "2 ^ n \<le> exp (real n)"
proof -
  have "(2 :: real) \<le> exp 1" using exp_ge_add_one_self [of 1] by simp
  then have "(2 :: real) ^ n \<le> exp 1 ^ n" by (intro power_mono) simp_all
  also have "\<dots> = exp (real n)" using exp_of_nat_mult [of n "1 :: real"] by simp
  finally show ?thesis .
qed



lemma sigmoid_saturates_low: "sigmoid (- 200) = 0"
proof -
  have "2 ^ 200 \<le> exp (real 200)" by (rule exp_ge_pow2)
  then have "(2 :: real) ^ 200 \<le> exp 200" by simp
  moreover have "(2 - 1 / 2 ^ 24) * 2 ^ 127 \<le> (2 :: real) ^ 200" by simp
  ultimately have "float32_overflows (exp 200)" by (simp add: float32_overflows_def)
  then show ?thesis by (simp add: sigmoid_def)
qed

section \<open>Properties of the kernel and of the layer\<close>

lemma length_affine: "Linear_shape n_in n_out l \<Longrightarrow> length (affine l x) = n_out"
  by (simp add: Linear_shape_def affine_def)

lemma fits_append:
  "fits d (as @ bs) \<longleftrightarrow> fits d as \<and> fits (width_after d as) bs"
  by (induction as arbitrary: d) (simp_all add: width_after_def)

lemma shapes_fit:
  assumes "list_all2 (\<lambda>(n_in, n_out) l. Linear_shape n_in n_out l) dims ls"
    and "\<forall>n < length dims - 1. snd (dims ! n) = fst (dims ! Suc n)"
    and "dims \<noteq> []"
  shows "fits (fst (hd dims)) ls"
  using assms
proof (induction dims ls rule: list_all2_induct)
  case Nil
  then show ?case by simp
next
  case (Cons p ps l ls)
  note prems = Cons.prems and IH = Cons.IH and hyps = Cons.hyps
  obtain a b where p: "p = (a, b)" by (cases p)
  with hyps have sh: "Linear_shape a b l" by simp
  then have out: "out_features l = b" by (simp add: Linear_shape_def)
  show ?case
  proof (cases ps)
    case Nil
    with hyps have "ls = []" by simp
    with sh out p show ?thesis by simp
  next
    case ps: (Cons q qs)
    have "0 < length (p # ps) - 1" using ps by simp
    with prems(1) have "snd ((p # ps) ! 0) = fst ((p # ps) ! Suc 0)" by blast
    with ps p have bq: "fst (hd ps) = b" by simp
    have "\<forall>n < length ps - 1. snd (ps ! n) = fst (ps ! Suc n)"
    proof (intro allI impI)
      fix n assume "n < length ps - 1"
      then have "Suc n < length (p # ps) - 1" by simp
      with prems(1) have "snd ((p # ps) ! Suc n) = fst ((p # ps) ! Suc (Suc n))" by blast
      then show "snd (ps ! n) = fst (ps ! Suc n)" by simp
    qed
    with IH ps have "fits (fst (hd ps)) ls" by simp
    with bq sh out p show ?thesis by simp
  qed
qed

lemma init_dims_chain:
  "\<forall>n < length ([(a, h)] @ replicate m (h, h) @ [(h, c)]) - 1.
     snd (([(a, h)] @ replicate m (h, h) @ [(h, c :: nat)]) ! n)
       = fst (([(a, h :: nat)] @ replicate m (h, h) @ [(h, c)]) ! Suc n)"
proof (intro allI impI)
  fix n assume "n < length ([(a, h)] @ replicate m (h, h) @ [(h, c)]) - 1"
  then have n: "n \<le> m" by simp
  have s: "snd (([(a, h)] @ replicate m (h, h) @ [(h, c)]) ! n) = h"
    using n by (cases n) (simp_all add: nth_append)
  have f: "fst (([(a, h)] @ replicate m (h, h) @ [(h, c)]) ! Suc n) = h"
    using n by (simp add: nth_append)
  from s f show "snd (([(a, h)] @ replicate m (h, h) @ [(h, c)]) ! n)
       = fst (([(a, h)] @ replicate m (h, h) @ [(h, c)]) ! Suc n)" by simp
qed

lemma init_fits:
  assumes "MLP_Kernel_DGL_init nb_input nb_hidden_gnn nb_output nb_layer k"
  shows "fits (nb_input * 2) (layers k)" and "layers k \<noteq> []"
proof -
  let ?dims = "[(nb_input * 2, nb_hidden_gnn)]
        @ replicate (nb_layer - 1) (nb_hidden_gnn, nb_hidden_gnn)
        @ [(nb_hidden_gnn, nb_output)]"
  from assms have l2: "list_all2 (\<lambda>(n_in, n_out) l. Linear_shape n_in n_out l) ?dims (layers k)"
    by (simp add: MLP_Kernel_DGL_init_def)
  from shapes_fit [OF l2 init_dims_chain] show "fits (nb_input * 2) (layers k)" by simp
  from list_all2_lengthD [OF l2] show "layers k \<noteq> []" by auto
qed

lemma hidden_loop_fits:
  assumes "fits d ls" and "list_all (\<lambda>r. length r = d) xs"
  shows "hidden_loop ls (T2 xs)
           = Inr (T2 (map (\<lambda>r. foldl (\<lambda>h l. map relu (affine l h)) r ls) xs))
         \<and> list_all (\<lambda>r. length r = width_after d ls)
             (map (\<lambda>r. foldl (\<lambda>h l. map relu (affine l h)) r ls) xs)"
  using assms
proof (induction ls arbitrary: d xs)
  case Nil
  then show ?case by (simp add: width_after_def)
next
  case (Cons l ls)
  from Cons.prems have sh: "Linear_shape d (out_features l) l" and f: "fits (out_features l) ls"
    by simp_all
  from sh have inf: "in_features l = d" by (simp add: Linear_shape_def)
  have u: "list_all (\<lambda>r. length r = out_features l) (map (map relu) (map (affine l) xs))"
    using length_affine [OF sh] by (simp add: list_all_iff)
  from Cons.IH [OF f u] Cons.prems(2) inf show ?case
    by (simp add: width_after_def comp_def)
qed

lemma gathered_cat:
  "cat_dim1 (T2 (map (\<lambda>i. x ! i) (map fst es))) (T2 (map (\<lambda>i. x ! i) (map snd es)))
           = Inr (T2 (map (\<lambda>(i, j). x ! i @ x ! j) es))"
  by (induction es) auto

lemma mlp_edge_batch:
  assumes feat: "ndata g ''feat'' = Some (T2 x)"
    and valid: "list_all (\<lambda>(i, j). i < length x \<and> j < length x) (edges g)"
    and uniform: "list_all (\<lambda>r. length r = d) x"
    and init: "MLP_Kernel_DGL_init d nb_hidden nb_output nb_layer k"
  shows "mlp k (edge_batch g)
           = Inr [(''e'', T2 (map (\<lambda>(i, j). edge_weight k (x ! i) (x ! j)) (edges g)))]"
proof -
  from valid have v1: "list_all (\<lambda>i. i < length x) (map fst (edges g))"
    and v2: "list_all (\<lambda>i. i < length x) (map snd (edges g))"
    by (auto simp: list_all_iff)
  have s: "src (edge_batch g) ''feat'' = Inr (T2 (map (\<lambda>i. x ! i) (map fst (edges g))))"
    using feat v1 by (simp add: edge_batch_def getitem_def)
  have t: "dst (edge_batch g) ''feat'' = Inr (T2 (map (\<lambda>i. x ! i) (map snd (edges g))))"
    using feat v2 by (simp add: edge_batch_def getitem_def)
  let ?cat = "map (\<lambda>(i, j). x ! i @ x ! j) (edges g)"
  let ?hid = "map (\<lambda>r. foldl (\<lambda>h l. map relu (affine l h)) r (butlast (layers k))) ?cat"
  have wcat: "list_all (\<lambda>r. length r = d * 2) ?cat"
    using valid uniform by (auto simp: list_all_iff)
  from init_fits [OF init] have ne: "layers k \<noteq> []" and f: "fits (d * 2) (layers k)"
    by simp_all
  from ne have "layers k = butlast (layers k) @ [last (layers k)]" by simp
  with f have "fits (d * 2) (butlast (layers k) @ [last (layers k)])" by simp
  then have fb: "fits (d * 2) (butlast (layers k))"
    and fl: "Linear_shape (width_after (d * 2) (butlast (layers k)))
               (out_features (last (layers k))) (last (layers k))"
    by (simp_all add: fits_append)
  from hidden_loop_fits [OF fb wcat]
  have h: "hidden_loop (butlast (layers k)) (T2 ?cat) = Inr (T2 ?hid)"
    and wh: "list_all (\<lambda>r. length r = width_after (d * 2) (butlast (layers k))) ?hid"
    by simp_all
  from fl have "in_features (last (layers k)) = width_after (d * 2) (butlast (layers k))"
    by (simp add: Linear_shape_def)
  with wh have lf: "Linear_forward (last (layers k)) (T2 ?hid)
                      = Inr (T2 (map (affine (last (layers k))) ?hid))"
    by simp
  have "mlp k (edge_batch g)
          = Inr [(''e'', tensor_map sigmoid (T2 (map (affine (last (layers k))) ?hid)))]"
    unfolding mlp_def s t ebind_Inr gathered_cat h
    using ne lf by simp
  also have "tensor_map sigmoid (T2 (map (affine (last (layers k))) ?hid))
               = T2 (map (\<lambda>(i, j). edge_weight k (x ! i) (x ! j)) (edges g))"
    by (simp add: edge_weight_def kernel_f_def case_prod_unfold comp_def)
  finally show ?thesis .
qed

text \<open>
  C2. For every edge \<open>(i, j)\<close> of the graph, the kernel stores in edge field \<open>e\<close> the
  value \<open>sigmoid (f [x_i, x_j])\<close>: the features of the source followed by those of the
  destination go through the hidden linear layers with ReLU, the final linear layer and
  a sigmoid.
\<close>

theorem MLP_Kernel_DGL_edge_field:
  assumes feat: "ndata g ''feat'' = Some (T2 x)"
    and valid: "list_all (\<lambda>(i, j). i < length x \<and> j < length x) (edges g)"
    and uniform: "list_all (\<lambda>r. length r = d) x"
    and init: "MLP_Kernel_DGL_init d nb_hidden nb_output nb_layer k"
    and n: "n < length (edges g)"
    and e: "edges g ! n = (i, j)"
  shows "ebind (MLP_Kernel_DGL_forward k g) (\<lambda>g'. edge_row g' ''e'' n)
           = Inr (edge_weight k (x ! i) (x ! j))"
  unfolding MLP_Kernel_DGL_forward_def apply_edges_def
    mlp_edge_batch [OF feat valid uniform init] ebind_Inr
  using n e by (simp add: edge_row_def getitem_def)

lemma apply_edges_mlp:
  assumes feat: "ndata g ''feat'' = Some (T2 x)"
    and valid: "list_all (\<lambda>(i, j). i < length x \<and> j < length x) (edges g)"
    and uniform: "list_all (\<lambda>r. length r = d) x"
    and init: "MLP_Kernel_DGL_init d nb_hidden nb_output nb_layer k"
  shows "MLP_Kernel_DGL_forward k g
           = Inr (g\<lparr>edata := (edata g)
                   (''e'' \<mapsto> T2 (map (\<lambda>(i, j). edge_weight k (x ! i) (x ! j)) (edges g)))\<rparr>)"
  unfolding MLP_Kernel_DGL_forward_def apply_edges_def
    mlp_edge_batch [OF feat valid uniform init] ebind_Inr
  by simp

lemma broadcast2_scalar:
  "length b = 1 \<Longrightarrow> broadcast2 f a b = Inr (map (\<lambda>x. f x (hd b)) a)"
  by (cases a; cases b) (auto simp: broadcast2_def length_Suc_conv)

lemma length_kernel_f:
  assumes "MLP_Kernel_DGL_init d nb_hidden nb_output nb_layer k"
  shows "length (edge_weight k u v) = nb_output"
proof -
  let ?dims = "[(d * 2, nb_hidden)] @ replicate (nb_layer - 1) (nb_hidden, nb_hidden)
                 @ [(nb_hidden, nb_output)]"
  from assms have l2: "list_all2 (\<lambda>(n_in, n_out) l. Linear_shape n_in n_out l) ?dims (layers k)"
    by (simp add: MLP_Kernel_DGL_init_def)
  from list_all2_lengthD [OF l2] have len: "length (layers k) = length ?dims" by simp
  then have ne: "layers k \<noteq> []" by auto
  have "(\<lambda>(n_in, n_out) l. Linear_shape n_in n_out l) (?dims ! (length ?dims - 1))
          (layers k ! (length ?dims - 1))"
    by (rule list_all2_nthD [OF l2]) simp
  moreover have "?dims ! (length ?dims - 1) = (nb_hidden, nb_output)"
    by (simp add: nth_append)
  moreover have "layers k ! (length ?dims - 1) = last (layers k)"
    using ne len by (simp add: last_conv_nth)
  ultimately have "Linear_shape nb_hidden nb_output (last (layers k))" by simp
  then show ?thesis
    by (simp add: edge_weight_def kernel_f_def length_affine)
qed

lemma u_mul_e_weighted:
  assumes feat: "ndata g ''feat'' = Some (T2 x)"
    and e: "edata g ''e'' = Some (T2 (map (\<lambda>(i, j). edge_weight k (x ! i) (x ! j)) (edges g)))"
    and valid: "list_all (\<lambda>(i, j). i < length x \<and> j < length x) (edges g)"
    and uniform: "list_all (\<lambda>r. length r = d) x"
    and one: "\<And>u v. length (edge_weight k u v) = 1"
    and ne: "x \<noteq> []"
  shows "u_mul_e ''feat'' ''e'' ''msg'' g
           = Inr \<lparr>msg_name = ''msg'', msg_width = d, msg_rows = map (scaled k x) (edges g)\<rparr>"
proof -
  from valid have v1: "list_all (\<lambda>i. i < length x) (map fst (edges g))"
    by (auto simp: list_all_iff)
  have ms: "map2 (broadcast2 (\<lambda>a b. a * b)) (map ((!) x \<circ> fst) es)
              (map (\<lambda>(i, j). edge_weight k (x ! i) (x ! j)) es)
            = map (\<lambda>e. Inr (scaled k x e)) es" for es
    by (induction es) (auto simp: broadcast2_scalar [OF one] scaled_def)
  have w: "(case map (scaled k x) (edges g) of m # _ \<Rightarrow> length m
           | [] \<Rightarrow> (case x of r # _ \<Rightarrow> length r | [] \<Rightarrow> 0)) = d"
  proof (cases "edges g")
    case Nil
    with ne uniform show ?thesis by (cases x) simp_all
  next
    case (Cons a es)
    with valid have "fst a < length x" by auto
    with uniform have "length (x ! fst a) = d" by (simp add: list_all_length)
    with Cons show ?thesis by (simp add: scaled_def)
  qed
  show ?thesis
    unfolding u_mul_e_def
    using feat e v1 w by (simp add: getitem_def ms)
qed

lemma foldl_vec_add:
  assumes "length z = d" and "list_all (\<lambda>v. length v = d) vs"
  shows "foldl vec_add z vs = map (\<lambda>c. z ! c + (\<Sum>v \<leftarrow> vs. v ! c)) [0 ..< d]"
  using assms
proof (induction vs arbitrary: z)
  case Nil
  with map_nth [of z] show ?case by simp
next
  case (Cons v vs)
  from Cons.prems have lv: "length v = d" and r: "list_all (\<lambda>v. length v = d) vs" by simp_all
  with Cons.prems have la: "length (vec_add z v) = d" by (simp add: vec_add_def)
  have "foldl vec_add (vec_add z v) vs
          = map (\<lambda>c. vec_add z v ! c + (\<Sum>v \<leftarrow> vs. v ! c)) [0 ..< d]"
    by (rule Cons.IH [OF la r])
  also have "\<dots> = map (\<lambda>c. z ! c + (\<Sum>v \<leftarrow> v # vs. v ! c)) [0 ..< d]"
    using lv Cons.prems(1) by (simp add: vec_add_def)
  finally show ?case by simp
qed

lemma inbox_map:
  "inbox g (map f (edges g)) v = map f (filter (\<lambda>e. snd e = v) (edges g))"
proof -
  have "map fst (filter (\<lambda>(m, e). snd e = v) (zip (map f es) es))
          = map f (filter (\<lambda>e. snd e = v) es)" for es
    by (induction es) auto
  then show ?thesis by (simp add: inbox_def)
qed

lemma inbox_updates [simp]:
  "inbox (g\<lparr>ndata := nd\<rparr>) = inbox g" "inbox (g\<lparr>edata := ed\<rparr>) = inbox g"
  by (simp_all add: inbox_def fun_eq_iff)

lemma agg_row:
  assumes valid: "list_all (\<lambda>(i, j). i < length x \<and> j < length x) (edges g)"
    and uniform: "list_all (\<lambda>r. length r = d) x"
    and i: "i < length x"
  shows "foldl vec_add (replicate d 0) (inbox g (map (scaled k x) (edges g)) i)
           = neighbor_sum k (edges g) x i"
proof -
  let ?in = "filter (\<lambda>e. snd e = i) (edges g)"
  have all: "list_all (\<lambda>v. length v = d) (map (scaled k x) ?in)"
    using valid uniform by (auto simp: list_all_iff scaled_def)
  from uniform i have di: "length (x ! i) = d" by (simp add: list_all_length)
  have "foldl vec_add (replicate d 0) (inbox g (map (scaled k x) (edges g)) i)
          = map (\<lambda>c. replicate d 0 ! c + (\<Sum>v \<leftarrow> map (scaled k x) ?in. v ! c)) [0 ..< d]"
    unfolding inbox_map by (rule foldl_vec_add [OF _ all]) simp
  also have "\<dots> = map (\<lambda>c. \<Sum>e \<leftarrow> ?in. scaled k x e ! c) [0 ..< d]"
    by (simp add: comp_def)
  also have "\<dots> = map (\<lambda>c. \<Sum>e \<leftarrow> ?in.
                       hd (edge_weight k (x ! fst e) (x ! snd e)) * (x ! fst e ! c)) [0 ..< d]"
  proof -
    have "scaled k x e ! c = hd (edge_weight k (x ! fst e) (x ! snd e)) * (x ! fst e ! c)"
      if "e \<in> set ?in" and "c < d" for e c
    proof -
      from that valid have "fst e < length x" by (auto simp: list_all_iff)
      with uniform have "length (x ! fst e) = d" by (simp add: list_all_length)
      with that show ?thesis by (simp add: scaled_def)
    qed
    then show ?thesis by (auto intro!: arg_cong [where f = sum_list] map_cong)
  qed
  finally show ?thesis
    by (simp add: neighbor_sum_def in_edges_def di case_prod_unfold)
qed

lemma GNN_Layer_forward_rows:
  assumes norm: "normalized l features = Inr (T2 x)"
    and len: "length x = num_nodes g"
    and uniform: "list_all (\<lambda>r. length r = input_dim) x"
    and valid: "list_all (\<lambda>(i, j). i < num_nodes g \<and> j < num_nodes g) (edges g)"
    and init: "GNN_Layer_init input_dim nb_hidden_gnn nb_hidden_kernel apply_norm l"
  shows "\<exists>g'. GNN_Layer_forward l g features
           = Inr (T2 (map (\<lambda>i. map relu (affine (fc l)
                        (x ! i @ neighbor_sum (edge_weighting l) (edges g) x i)))
                     [0 ..< num_nodes g]), g')
         \<and> edata g' ''e''
             = Some (T2 (map (\<lambda>(i, j). edge_weight (edge_weighting l) (x ! i) (x ! j)) (edges g)))
         \<and> ndata g' ''agg_msg''
             = Some (T2 (map (neighbor_sum (edge_weighting l) (edges g) x) [0 ..< num_nodes g]))"
proof (cases "num_nodes g = 0")
  case True
  with len have x: "x = []" by simp
  from valid True have es: "edges g = []" by (cases "edges g") auto
  let ?k = "edge_weighting l"
  let ?g1 = "g\<lparr>ndata := (ndata g)(''feat'' \<mapsto> T2 [])\<rparr>"
  from init have ki: "MLP_Kernel_DGL_init input_dim nb_hidden_kernel 1 1 ?k"
    by (simp add: GNN_Layer_init_def)
  have s1: "set_ndata g ''feat'' (T2 x) = Inr ?g1"
    using True x by (simp add: set_ndata_def)
  have s2: "MLP_Kernel_DGL_forward ?k ?g1
              = Inr (?g1\<lparr>edata := (edata ?g1)(''e'' \<mapsto> T2 [])\<rparr>)"
    using apply_edges_mlp [of ?g1 "[]", OF _ _ _ ki] es by simp
  show ?thesis
    unfolding GNN_Layer_forward_def norm ebind_Inr s1 s2
    using True es x
    by (simp add: update_all_def u_mul_e_def fn_sum_def getitem_def set_ndata_def inbox_def)
next
  case False
  with len have ne: "x \<noteq> []" by auto
  let ?k = "edge_weighting l"
  let ?w = "map (\<lambda>(i, j). edge_weight ?k (x ! i) (x ! j)) (edges g)"
  let ?g1 = "g\<lparr>ndata := (ndata g)(''feat'' \<mapsto> T2 x)\<rparr>"
  let ?g2 = "?g1\<lparr>edata := (edata ?g1)(''e'' \<mapsto> T2 ?w)\<rparr>"
  let ?agg = "map (neighbor_sum ?k (edges g) x) [0 ..< num_nodes g]"
  let ?g3 = "?g2\<lparr>ndata := (ndata ?g2)(''agg_msg'' \<mapsto> T2 ?agg)\<rparr>"
  from init have ki: "MLP_Kernel_DGL_init input_dim nb_hidden_kernel 1 1 ?k"
    and fcs: "Linear_shape (2 * input_dim) nb_hidden_gnn (fc l)"
    by (simp_all add: GNN_Layer_init_def)
  from valid len have valid': "list_all (\<lambda>(i, j). i < length x \<and> j < length x) (edges g)"
    by simp
  have s1: "set_ndata g ''feat'' (T2 x) = Inr ?g1"
    using len by (simp add: set_ndata_def)
  have s2: "MLP_Kernel_DGL_forward ?k ?g1 = Inr ?g2"
    using apply_edges_mlp [of ?g1 x, OF _ _ uniform ki] valid' by simp
  have m: "u_mul_e ''feat'' ''e'' ''msg'' ?g2
             = Inr \<lparr>msg_name = ''msg'', msg_width = input_dim,
                    msg_rows = map (scaled ?k x) (edges ?g2)\<rparr>"
    by (rule u_mul_e_weighted [OF _ _ _ uniform length_kernel_f [OF ki] ne])
       (simp_all add: valid')
  have agg: "map (\<lambda>v. foldl vec_add (replicate input_dim 0)
                  (inbox g (map (scaled ?k x) (edges g)) v)) [0 ..< num_nodes g] = ?agg"
  proof (rule map_cong [OF refl])
    fix v assume "v \<in> set [0 ..< num_nodes g]"
    then have v: "v < length x" using len by simp
    show "foldl vec_add (replicate input_dim 0) (inbox g (map (scaled ?k x) (edges g)) v)
            = neighbor_sum ?k (edges g) x v"
      by (rule agg_row [OF valid' uniform v])
  qed
  have s3: "update_all (u_mul_e ''feat'' ''e'' ''msg'') (fn_sum ''msg'' ''agg_msg'') ?g2
              = Inr ?g3"
    unfolding update_all_def m ebind_Inr
    by (simp add: fn_sum_def agg set_ndata_def)
  have cat: "cat_dim1 (T2 x) (T2 ?agg)
               = Inr (T2 (map (\<lambda>i. x ! i @ neighbor_sum ?k (edges g) x i) [0 ..< num_nodes g]))"
  proof -
    have "map2 (\<lambda>a b. a @ b) x ?agg
            = map (\<lambda>i. x ! i @ neighbor_sum ?k (edges g) x i) [0 ..< num_nodes g]"
      using len by (intro nth_equalityI) simp_all
    with len show ?thesis by simp
  qed
  have wid: "list_all (\<lambda>r. length r = in_features (fc l))
               (map (\<lambda>i. x ! i @ neighbor_sum ?k (edges g) x i) [0 ..< num_nodes g])"
  proof -
    have "length (x ! i @ neighbor_sum ?k (edges g) x i) = 2 * input_dim"
      if "i < num_nodes g" for i
    proof -
      from that len uniform have "length (x ! i) = input_dim" by (simp add: list_all_length)
      then show ?thesis by (simp add: neighbor_sum_def)
    qed
    with fcs show ?thesis by (simp add: list_all_iff Linear_shape_def)
  qed
  have gi: "getitem (ndata ?g3) ''agg_msg'' = Inr (T2 ?agg)"
    by (simp add: getitem_def)
  have lf: "Linear_forward (fc l)
              (T2 (map (\<lambda>i. x ! i @ neighbor_sum ?k (edges g) x i) [0 ..< num_nodes g]))
            = Inr (T2 (map (affine (fc l))
                (map (\<lambda>i. x ! i @ neighbor_sum ?k (edges g) x i) [0 ..< num_nodes g])))"
    using wid by simp
  have "GNN_Layer_forward l g features
          = Inr (T2 (map (\<lambda>i. map relu (affine (fc l)
                        (x ! i @ neighbor_sum ?k (edges g) x i))) [0 ..< num_nodes g]), ?g3)"
    unfolding GNN_Layer_forward_def norm ebind_Inr s1 s2 s3 gi cat lf
    by (simp add: comp_def)
  moreover have "edata ?g3 ''e'' = Some (T2 ?w)" by simp
  moreover have "ndata ?g3 ''agg_msg'' = Some (T2 ?agg)" by simp
  ultimately show ?thesis by blast
qed

text \<open>
  C1. One \<^verbatim>\<open>GNN_Layer.forward\<close> gives node \<open>i\<close> the embedding
  \<open>ReLU (fc [x_i, z_i])\<close>, where \<open>x\<close> is the input after batch normalisation when the
  layer has one, and \<open>z_i\<close> sums, over the edges that end in \<open>i\<close>, the weight of the edge
  times the features of the neighbour it comes from.
\<close>

theorem GNN_Layer_forward_node:
  assumes norm: "normalized l features = Inr (T2 x)"
    and len: "length x = num_nodes g"
    and uniform: "list_all (\<lambda>r. length r = input_dim) x"
    and valid: "list_all (\<lambda>(i, j). i < num_nodes g \<and> j < num_nodes g) (edges g)"
    and init: "GNN_Layer_init input_dim nb_hidden_gnn nb_hidden_kernel apply_norm l"
    and i: "i < num_nodes g"
  shows "ebind (GNN_Layer_forward l g features) (\<lambda>(emb, g'). node_row emb i)
           = Inr (map relu (affine (fc l)
                    (x ! i @ neighbor_sum (edge_weighting l) (edges g) x i)))"
proof -
  from GNN_Layer_forward_rows [OF norm len uniform valid init]
  obtain g' where "GNN_Layer_forward l g features
           = Inr (T2 (map (\<lambda>i. map relu (affine (fc l)
                        (x ! i @ neighbor_sum (edge_weighting l) (edges g) x i)))
                     [0 ..< num_nodes g]), g')" by blast
  with i show ?thesis by (simp add: node_row_def)
qed




section \<open>The kernel and the layer on the example\<close>

lemma kernel_ex_init: "MLP_Kernel_DGL_init 1 1 1 1 kernel_ex"
  by (simp add: MLP_Kernel_DGL_init_def kernel_ex_def Linear_shape_def)

lemma layer_ex_init: "GNN_Layer_init 1 1 1 True layer_ex"
  using kernel_ex_init by (simp add: GNN_Layer_init_def layer_ex_def Linear_shape_def)

lemma edge_weight_ex:
  "edge_weight kernel_ex [- 1] [1] = [sigmoid (- 1)]"
  "edge_weight kernel_ex [1] [- 1] = [sigmoid 3]"
  by (simp_all add: edge_weight_def kernel_f_def kernel_ex_def affine_def dot_def relu_def)

theorem MLP_Kernel_DGL_edge_field_witness:
  "ebind (MLP_Kernel_DGL_forward kernel_ex g_feat_ex) (\<lambda>g'. edge_row g' ''e'' 1)
     = Inr [sigmoid 3]"
proof -
  have "ndata g_feat_ex ''feat'' = Some (T2 [[- 1], [1]])"
    and "list_all (\<lambda>(i, j). i < length [[- 1], [1 :: real]] \<and> j < length [[- 1], [1 :: real]])
           (edges g_feat_ex)"
    and "list_all (\<lambda>r. length r = 1) [[- 1], [1 :: real]]"
    by (simp_all add: g_feat_ex_def)
  moreover note kernel_ex_init
  moreover have "1 < length (edges g_feat_ex)" and "edges g_feat_ex ! 1 = (1, 0)"
    by (simp_all add: g_feat_ex_def)
  ultimately have "ebind (MLP_Kernel_DGL_forward kernel_ex g_feat_ex) (\<lambda>g'. edge_row g' ''e'' 1)
           = Inr (edge_weight kernel_ex ([[- 1], [1]] ! 1) ([[- 1], [1]] ! 0))"
    by (rule MLP_Kernel_DGL_edge_field)
  then show ?thesis by (simp add: edge_weight_ex)
qed

lemma layer_ex_hyps:
  "normalized layer_ex (T2 [[1], [3]]) = Inr (T2 [[- 1], [1]])"
  "length [[- 1], [1 :: real]] = num_nodes g_ex"
  "list_all (\<lambda>r. length r = 1) [[- 1], [1 :: real]]"
  "list_all (\<lambda>(i, j). i < num_nodes g_ex \<and> j < num_nodes g_ex) (edges g_ex)"
  by (simp_all add: normalized_def layer_ex_def g_ex_def)

lemma layer_ex_fields:
  "edge_weighting layer_ex = kernel_ex"
  "fc layer_ex = \<lparr>in_features = 2, out_features = 1, weight = [[1, 1]], bias = [0]\<rparr>"
  "edges g_ex = [(0, 1), (1, 0)]"
  by (simp_all add: layer_ex_def g_ex_def)

theorem GNN_Layer_forward_node_witness:
  "ebind (GNN_Layer_forward layer_ex g_ex (T2 [[1], [3]])) (\<lambda>(emb, g'). node_row emb 1)
     = Inr [1 - sigmoid (- 1)]"
proof -
  have i: "1 < num_nodes g_ex" by (simp add: g_ex_def)
  have ns: "neighbor_sum kernel_ex [(0, 1), (1, 0)] [[- 1], [1]] 1 = [- sigmoid (- 1)]"
    by (simp add: neighbor_sum_def in_edges_def edge_weight_ex)
  have "sigmoid (- 1) \<le> 1" using sigmoid_bounds [of "- 1"] by simp
  then have r: "relu (1 - sigmoid (- 1)) = 1 - sigmoid (- 1)" by (simp add: relu_def)
  have "ebind (GNN_Layer_forward layer_ex g_ex (T2 [[1], [3]])) (\<lambda>(emb, g'). node_row emb 1)
          = Inr (map relu (affine (fc layer_ex)
                   ([[- 1], [1]] ! 1 @ neighbor_sum (edge_weighting layer_ex) (edges g_ex)
                      [[- 1], [1]] 1)))"
    by (rule GNN_Layer_forward_node [OF layer_ex_hyps layer_ex_init i])
  also have "\<dots> = Inr [1 - sigmoid (- 1)]"
    unfolding layer_ex_fields ns by (simp add: affine_def dot_def r)
  finally show ?thesis .
qed







section \<open>Properties of the evaluation\<close>

lemma embed_sample_Inr:
  assumes "embed_sample net b acc = Inr acc'"
  shows "\<exists>f p w h g'. ndata (fst b) ''feat'' = Some (T2 f) \<and> ndata (fst b) ''pid'' = Some p
           \<and> ndata (fst b) ''weight'' = Some w \<and> net (fst b) = Inr (h, g')
           \<and> acc' = acc\<lparr>pid := pid acc @ [p],
                        orig_xyz := orig_xyz acc @ [T2 (map (take 3) f)],
                        emb_metric := emb_metric acc @ [T2 (map (drop 3) f)],
                        weight_list := weight_list acc @ [w],
                        emb_gnn := emb_gnn acc @ [h]\<rparr>"
proof -
  from assms obtain ft where ft: "ndata (fst b) ''feat'' = Some ft"
    by (cases "ndata (fst b) ''feat''") (simp_all add: embed_sample_def getitem_def Let_def)
  from assms ft obtain p where p: "ndata (fst b) ''pid'' = Some p"
    by (cases "ndata (fst b) ''pid''") (simp_all add: embed_sample_def getitem_def Let_def)
  from assms ft p obtain f where f: "ft = T2 f"
    by (cases ft) (simp_all add: embed_sample_def getitem_def Let_def)
  from assms ft f p obtain w where w: "ndata (fst b) ''weight'' = Some w"
    by (cases "ndata (fst b) ''weight''") (simp_all add: embed_sample_def getitem_def Let_def)
  from assms ft f p w obtain h g' where n: "net (fst b) = Inr (h, g')"
    by (cases "net (fst b)") (auto simp: embed_sample_def getitem_def Let_def)
  from assms ft f p w n show ?thesis
    by (simp add: embed_sample_def getitem_def Let_def)
qed

lemma embed_loop_appends:
  assumes "embed_loop net bs acc = Inr s"
  shows "\<exists>ps xs es ws hs.
           length ps = length bs \<and> length xs = length bs \<and> length es = length bs
           \<and> length ws = length bs \<and> length hs = length bs
           \<and> pid s = pid acc @ ps \<and> orig_xyz s = orig_xyz acc @ xs
           \<and> emb_metric s = emb_metric acc @ es \<and> weight_list s = weight_list acc @ ws
           \<and> emb_gnn s = emb_gnn acc @ hs
           \<and> (\<forall>i < length bs. sample_ok net (bs ! i) (ps ! i) (xs ! i) (es ! i) (ws ! i) (hs ! i))"
  using assms
proof (induction bs arbitrary: acc)
  case Nil
  then show ?case by simp
next
  case (Cons b bs)
  from Cons.prems obtain acc' where a: "embed_sample net b acc = Inr acc'"
    and r: "embed_loop net bs acc' = Inr s"
    by (cases "embed_sample net b acc") simp_all
  from embed_sample_Inr [OF a] obtain f p w h g' where
    b: "ndata (fst b) ''feat'' = Some (T2 f)" "ndata (fst b) ''pid'' = Some p"
       "ndata (fst b) ''weight'' = Some w" "net (fst b) = Inr (h, g')"
    and acc': "acc' = acc\<lparr>pid := pid acc @ [p],
                        orig_xyz := orig_xyz acc @ [T2 (map (take 3) f)],
                        emb_metric := emb_metric acc @ [T2 (map (drop 3) f)],
                        weight_list := weight_list acc @ [w],
                        emb_gnn := emb_gnn acc @ [h]\<rparr>"
    by blast
  have ok0: "sample_ok net b p (T2 (map (take 3) f)) (T2 (map (drop 3) f)) w h"
    using b by (simp add: sample_ok_def)
  from Cons.IH [OF r] obtain ps xs es ws hs where
    len: "length ps = length bs" "length xs = length bs" "length es = length bs"
         "length ws = length bs" "length hs = length bs"
    and eqs: "pid s = pid acc' @ ps" "orig_xyz s = orig_xyz acc' @ xs"
         "emb_metric s = emb_metric acc' @ es" "weight_list s = weight_list acc' @ ws"
         "emb_gnn s = emb_gnn acc' @ hs"
    and oks: "\<forall>i < length bs. sample_ok net (bs ! i) (ps ! i) (xs ! i) (es ! i) (ws ! i) (hs ! i)"
    by blast
  have all: "\<forall>i < length (b # bs). sample_ok net ((b # bs) ! i) ((p # ps) ! i)
               ((T2 (map (take 3) f) # xs) ! i) ((T2 (map (drop 3) f) # es) ! i)
               ((w # ws) ! i) ((h # hs) ! i)"
  proof (intro allI impI)
    fix i assume "i < length (b # bs)"
    then show "sample_ok net ((b # bs) ! i) ((p # ps) ! i)
               ((T2 (map (take 3) f) # xs) ! i) ((T2 (map (drop 3) f) # es) ! i)
               ((w # ws) ! i) ((h # hs) ! i)"
      using ok0 oks by (cases i) simp_all
  qed
  show ?case
    apply (rule exI [of _ "p # ps"])
    apply (rule exI [of _ "T2 (map (take 3) f) # xs"])
    apply (rule exI [of _ "T2 (map (drop 3) f) # es"])
    apply (rule exI [of _ "w # ws"])
    apply (rule exI [of _ "h # hs"])
    using len eqs all by (simp add: acc')
qed

lemma embed_loop_sample:
  assumes run: "embed_loop net batches no_samples = Inr s" and i: "i < length batches"
  shows "\<exists>f p w h g'. ndata (fst (batches ! i)) ''feat'' = Some (T2 f)
           \<and> ndata (fst (batches ! i)) ''pid'' = Some p
           \<and> ndata (fst (batches ! i)) ''weight'' = Some w
           \<and> net (fst (batches ! i)) = Inr (h, g')
           \<and> list_get (pid s) i = Inr p
           \<and> list_get (orig_xyz s) i = Inr (T2 (map (take 3) f))
           \<and> list_get (emb_metric s) i = Inr (T2 (map (drop 3) f))
           \<and> list_get (weight_list s) i = Inr w
           \<and> list_get (emb_gnn s) i = Inr h"
proof -
  from embed_loop_appends [OF run] obtain ps xs es ws hs where
    len: "length ps = length batches" "length xs = length batches" "length es = length batches"
         "length ws = length batches" "length hs = length batches"
    and eqs: "pid s = ps" "orig_xyz s = xs" "emb_metric s = es" "weight_list s = ws"
         "emb_gnn s = hs"
    and oks: "\<forall>i < length batches.
                sample_ok net (batches ! i) (ps ! i) (xs ! i) (es ! i) (ws ! i) (hs ! i)"
    by (auto simp: no_samples_def)
  from oks i have "sample_ok net (batches ! i) (ps ! i) (xs ! i) (es ! i) (ws ! i) (hs ! i)"
    by blast
  then obtain f g' where "ndata (fst (batches ! i)) ''feat'' = Some (T2 f)"
    "ndata (fst (batches ! i)) ''pid'' = Some (ps ! i)"
    "ndata (fst (batches ! i)) ''weight'' = Some (ws ! i)"
    "net (fst (batches ! i)) = Inr (hs ! i, g')"
    "xs ! i = T2 (map (take 3) f)" "es ! i = T2 (map (drop 3) f)"
    unfolding sample_ok_def by blast
  with len eqs i show ?thesis by (simp add: list_get_def)
qed




text \<open>
  C4. For every sample the loop has embedded, the scoring loop clusters what the network
  returned for that sample, and it does so by \<^verbatim>\<open>fit_predict\<close> of the DBSCAN object with
  \<open>eps = 0.24\<close> and \<open>min_samples = 3\<close>; this holds whatever \<^verbatim>\<open>fit_predict\<close> computes, so
  the argument is the network's embedding and no other list of the loop.
\<close>

theorem clusters_from_gnn_embedding:
  assumes run: "embed_loop net batches no_samples = Inr s"
    and i: "i < length batches"
    and net: "net (fst (batches ! i)) = Inr (hits_emb, g')"
  shows "list_get (emb_gnn s) i = Inr hits_emb
       \<and> score_sample fit_predict score_event_fn s i
           = ebind (fit_predict \<lparr>eps = 24 / 100, min_samples = 3\<rparr> hits_emb)
               (\<lambda>clusters. score_clusters score_event_fn s i clusters)"
proof -
  from embed_loop_sample [OF run i] net have "list_get (emb_gnn s) i = Inr hits_emb"
    by auto
  then show ?thesis
    by (simp add: score_sample_def get_clusters_def c_DBSCAN_def)
qed

lemma truth_frame_table:
  assumes "length ps = n" and "length ws = n"
  shows "truth_frame (T1 ps) [0 ..< n] (T1 ws) = Inr (truth_table ps ws)"
proof -
  have "map (\<lambda>(a, h, b). \<lparr>particle_id = a, hit_id = h, hit_weight = b\<rparr>)
          (zip ps (zip [0 ..< n] ws))
        = map (\<lambda>k. \<lparr>particle_id = ps ! k, hit_id = k, hit_weight = ws ! k\<rparr>) [0 ..< length ps]"
    using assms by (intro nth_equalityI) simp_all
  with assms show ?thesis by (simp add: truth_frame_def truth_table_def)
qed

lemma submission_frame_table:
  "submission_frame [0 ..< length cl] cl = Inr (submission_table cl)"
proof -
  have "map (\<lambda>(h, t). \<lparr>sub_hit_id = h, track_id = t\<rparr>) (zip [0 ..< length cl] cl)
        = map (\<lambda>k. \<lparr>sub_hit_id = k, track_id = cl ! k\<rparr>) [0 ..< length cl]"
    by (intro nth_equalityI) simp_all
  then show ?thesis by (simp add: submission_frame_def submission_table_def)
qed

lemma score_clusters_tables:
  assumes "list_get (pid s) i = Inr (T1 ps)" and "list_get (weight_list s) i = Inr (T1 ws)"
    and "length ps = length cl" and "length ws = length cl"
  shows "score_clusters score_event_fn s i cl
           = Inr (score_event_fn (truth_table ps ws) (submission_table cl))"
  using assms
  by (simp add: score_clusters_def Let_def truth_frame_table submission_frame_table)

lemma score_loop_sum:
  assumes "\<forall>i \<in> set idx. score_sample fit_predict score_event_fn s i = Inr (v i)"
  shows "score_loop fit_predict score_event_fn s idx a = Inr (a + (\<Sum>i \<leftarrow> idx. v i))"
  using assms by (induction idx arbitrary: a) (simp_all add: add.assoc)

lemma hit_id_columns:
  "length ps = n \<Longrightarrow> map hit_id (truth_table ps ws) = [0 ..< n]"
  "map sub_hit_id (submission_table cl) = [0 ..< length cl]"
  by (simp_all add: truth_table_def submission_table_def comp_def map_idI)

text \<open>
  C6. The final score is the mean over the first 20 samples of \<^verbatim>\<open>score_event\<close> on
  the truth table of the sample's particle ids and hit weights and the submission table
  of its cluster labels, and \<open>hit_id\<close> counts the hits from 0 in both tables.
\<close>

theorem final_score_mean:
  assumes run: "embed_loop net batches no_samples = Inr s"
    and enough: "20 \<le> length batches"
    and samples: "\<forall>i < 20.
           ndata (fst (batches ! i)) ''pid'' = Some (T1 (ps i))
         \<and> ndata (fst (batches ! i)) ''weight'' = Some (T1 (ws i))
         \<and> net (fst (batches ! i)) = Inr (hits_emb i, g' i)
         \<and> fit_predict c_DBSCAN (hits_emb i) = Inr (cl i)
         \<and> length (ps i) = length (cl i) \<and> length (ws i) = length (cl i)"
  shows "final_score fit_predict score_event_fn s
           = Inr ((\<Sum>i \<leftarrow> [0 ..< 20].
                     score_event_fn (truth_table (ps i) (ws i)) (submission_table (cl i))) / 20)
       \<and> (\<forall>i < 20. map hit_id (truth_table (ps i) (ws i)) = [0 ..< length (cl i)]
                 \<and> map sub_hit_id (submission_table (cl i)) = [0 ..< length (cl i)])"
proof -
  have one: "score_sample fit_predict score_event_fn s i
               = Inr (score_event_fn (truth_table (ps i) (ws i)) (submission_table (cl i)))"
    if "i < 20" for i
  proof -
    from that enough have i: "i < length batches" by simp
    from samples that have h: "ndata (fst (batches ! i)) ''pid'' = Some (T1 (ps i))"
      "ndata (fst (batches ! i)) ''weight'' = Some (T1 (ws i))"
      "net (fst (batches ! i)) = Inr (hits_emb i, g' i)"
      "fit_predict c_DBSCAN (hits_emb i) = Inr (cl i)"
      "length (ps i) = length (cl i)" "length (ws i) = length (cl i)"
      by blast+
    from embed_loop_sample [OF run i] h(1,2,3)
    have p: "list_get (pid s) i = Inr (T1 (ps i))"
      and w: "list_get (weight_list s) i = Inr (T1 (ws i))"
      and e: "list_get (emb_gnn s) i = Inr (hits_emb i)" by auto
    show ?thesis
      unfolding score_sample_def e ebind_Inr get_clusters_def h(4)
      by (rule score_clusters_tables [OF p w h(5,6)])
  qed
  then have "\<forall>i \<in> set [0 ..< nb_samples].
      score_sample fit_predict score_event_fn s i
        = Inr (score_event_fn (truth_table (ps i) (ws i)) (submission_table (cl i)))"
    by (simp add: nb_samples_def)
  from score_loop_sum [OF this, of 0]
  have "final_score fit_predict score_event_fn s
           = Inr ((\<Sum>i \<leftarrow> [0 ..< 20].
                     score_event_fn (truth_table (ps i) (ws i)) (submission_table (cl i))) / 20)"
    by (simp add: final_score_def nb_samples_def)
  moreover have "\<forall>i < 20. map hit_id (truth_table (ps i) (ws i)) = [0 ..< length (cl i)]
                 \<and> map sub_hit_id (submission_table (cl i)) = [0 ..< length (cl i)]"
    using samples by (simp add: hit_id_columns)
  ultimately show ?thesis by blast
qed

section \<open>The evaluation on the example\<close>

lemma kernel_zero_init: "MLP_Kernel_DGL_init 4 1 1 1 kernel_zero"
  by (simp add: MLP_Kernel_DGL_init_def kernel_zero_def Linear_shape_def)

lemma layer_four_init: "GNN_Layer_init 4 2 1 True layer_four"
  using kernel_zero_init by (simp add: GNN_Layer_init_def layer_four_def Linear_shape_def)

lemma edge_weight_zero: "length u + length v = 8 \<Longrightarrow> edge_weight kernel_zero u v = [1 / 2]"
  by (simp add: edge_weight_def kernel_f_def kernel_zero_def affine_def dot_def relu_def
      sigmoid_zero)

lemma gnn_ex_run:
  "\<exists>g'. GNN_forward gnn_ex g_sample = Inr (T2 [[0, 1], [1, 0]], g')"
proof -
  let ?g = "g_sample\<lparr>ndata := (ndata g_sample)(''feat'' := None)\<rparr>"
  let ?x = "[[0, - 1 / 2, 0, 0], [0, 1 / 2, 0, 0 :: real]]"
  have norm: "normalized layer_four (T2 [[0, 1, 0, 1], [0, 2, 0, 1]]) = Inr (T2 ?x)"
    by (simp add: normalized_def layer_four_def bn_centre_def)
  have len: "length ?x = num_nodes ?g" by (simp add: g_sample_def)
  have uni: "list_all (\<lambda>r. length r = 4) ?x" by simp
  have val: "list_all (\<lambda>(i, j). i < num_nodes ?g \<and> j < num_nodes ?g) (edges ?g)"
    by (simp add: g_sample_def)
  have es: "edges ?g = [(0, 1), (1, 0)]" and nn: "[0 ..< num_nodes ?g] = [0, 1]"
    by (simp_all add: g_sample_def upt_rec)
  have ew: "edge_weighting layer_four = kernel_zero"
    and fc: "fc layer_four = \<lparr>in_features = 8, out_features = 2,
            weight = [[0, 2, 0, 0, 0, 0, 0, 0], [0, 0, 0, 0, 0, 4, 0, 0]], bias = [0, 0]\<rparr>"
    by (simp_all add: layer_four_def)
  have z0: "neighbor_sum kernel_zero [(0, 1), (1, 0)] ?x 0 = [0, 1 / 4, 0, 0]"
    by (simp add: neighbor_sum_def in_edges_def edge_weight_zero upt_rec)
  have z1: "neighbor_sum kernel_zero [(0, 1), (1, 0)] ?x 1 = [0, - 1 / 4, 0, 0]"
    by (simp add: neighbor_sum_def in_edges_def edge_weight_zero upt_rec)
  from GNN_Layer_forward_rows [OF norm len uni val layer_four_init]
  obtain g' where "GNN_Layer_forward layer_four ?g (T2 [[0, 1, 0, 1], [0, 2, 0, 1]])
           = Inr (T2 (map (\<lambda>i. map relu (affine (fc layer_four)
                        (?x ! i @ neighbor_sum (edge_weighting layer_four) (edges ?g) ?x i)))
                     [0 ..< num_nodes ?g]), g')"
    by blast
  then have "GNN_Layer_forward layer_four ?g (T2 [[0, 1, 0, 1], [0, 2, 0, 1]])
           = Inr (T2 [[0, 1], [1, 0]], g')"
    unfolding nn es ew fc list.map z0 z1 by (simp add: affine_def dot_def relu_def)
  then have "GNN_forward gnn_ex g_sample = Inr (T2 [[0, 1], [1, 0]], g')"
    by (simp add: GNN_forward_def gnn_ex_def getitem_def g_sample_def affine_def dot_def)
  then show ?thesis by blast
qed

lemma embed_sample_ok:
  assumes "ndata g ''feat'' = Some (T2 f)" and "ndata g ''pid'' = Some p"
    and "ndata g ''weight'' = Some w" and "net g = Inr (h, g')"
  shows "embed_sample net (g, gt) acc
           = Inr (acc\<lparr>pid := pid acc @ [p],
                      orig_xyz := orig_xyz acc @ [T2 (map (take 3) f)],
                      emb_metric := emb_metric acc @ [T2 (map (drop 3) f)],
                      weight_list := weight_list acc @ [w],
                      emb_gnn := emb_gnn acc @ [h]\<rparr>)"
  using assms by (simp add: embed_sample_def getitem_def Let_def)

lemma embed_loop_replicate:
  assumes "ndata g ''feat'' = Some (T2 f)" and "ndata g ''pid'' = Some p"
    and "ndata g ''weight'' = Some w" and "net g = Inr (h, g')"
  shows "embed_loop net (replicate n (g, gt)) acc
           = Inr (acc\<lparr>pid := pid acc @ replicate n p,
                      orig_xyz := orig_xyz acc @ replicate n (T2 (map (take 3) f)),
                      emb_metric := emb_metric acc @ replicate n (T2 (map (drop 3) f)),
                      weight_list := weight_list acc @ replicate n w,
                      emb_gnn := emb_gnn acc @ replicate n h\<rparr>)"
proof (induction n arbitrary: acc)
  case 0
  show ?case by simp
next
  case (Suc n)
  show ?case
    by (simp add: embed_sample_ok [where net = net and g = g, OF assms] Suc.IH
        replicate_app_Cons_same)
qed

lemma g_sample_fields:
  "ndata g_sample ''feat'' = Some (T2 [[0, 1, 0, 1], [0, 2, 0, 1]])"
  "ndata g_sample ''pid'' = Some (T1 [7, 7])"
  "ndata g_sample ''weight'' = Some (T1 [1 / 2, 1 / 2])"
  by (simp_all add: g_sample_def)

lemma embed_loop_ex:
  "embed_loop (GNN_forward gnn_ex) batches_ex no_samples = Inr embedded_ex"
proof -
  from gnn_ex_run obtain g' where
    "GNN_forward gnn_ex g_sample = Inr (T2 [[0, 1], [1, 0]], g')" by blast
  from embed_loop_replicate [where net = "GNN_forward gnn_ex" and g = g_sample,
      OF g_sample_fields this, of 20 g_sample no_samples]
  show ?thesis by (simp add: batches_ex_def no_samples_def embedded_ex_def)
qed

lemma batches_ex_nth: "i < 20 \<Longrightarrow> fst (batches_ex ! i) = g_sample"
  by (simp add: batches_ex_def)

lemma embedded_ex_get:
  "i < 20 \<Longrightarrow> list_get (orig_xyz embedded_ex) i = Inr (T2 [[0, 1, 0], [0, 2, 0]])"
  "i < 20 \<Longrightarrow> list_get (emb_metric embedded_ex) i = Inr (T2 [[1], [1]])"
  "i < 20 \<Longrightarrow> list_get (emb_gnn embedded_ex) i = Inr (T2 [[0, 1], [1, 0]])"
  "i < 20 \<Longrightarrow> list_get (pid embedded_ex) i = Inr (T1 [7, 7])"
  "i < 20 \<Longrightarrow> list_get (weight_list embedded_ex) i = Inr (T1 [1 / 2, 1 / 2])"
  by (simp_all add: list_get_def embedded_ex_def)



theorem clusters_from_gnn_embedding_witness:
  "list_get (emb_gnn embedded_ex) 5 = Inr (T2 [[0, 1], [1, 0]])
   \<and> score_sample fit_predict_ex score_ex embedded_ex 5 = Inr (1 / 2)
   \<and> fit_predict_ex \<lparr>eps = 24 / 100, min_samples = 3\<rparr> (T2 [[0, 1], [1, 0]]) = Inr [0, 1]
   \<and> fit_predict_ex \<lparr>eps = 24 / 100, min_samples = 3\<rparr> (T2 [[0, 1, 0], [0, 2, 0]]) = Inr [0, 0]
   \<and> fit_predict_ex \<lparr>eps = 24 / 100, min_samples = 3\<rparr> (T2 [[1], [1]]) = Inr [1, 1]"
proof -
  have i: "5 < length batches_ex" by (simp add: batches_ex_def)
  have g: "fst (batches_ex ! 5) = g_sample" by (simp add: batches_ex_nth)
  from gnn_ex_run obtain g' where
    "GNN_forward gnn_ex g_sample = Inr (T2 [[0, 1], [1, 0]], g')" by blast
  then have net: "GNN_forward gnn_ex (fst (batches_ex ! 5)) = Inr (T2 [[0, 1], [1, 0]], g')"
    unfolding g .
  have fp: "fit_predict_ex \<lparr>eps = 24 / 100, min_samples = 3\<rparr> (T2 [[0, 1], [1, 0]]) = Inr [0, 1]"
    "fit_predict_ex \<lparr>eps = 24 / 100, min_samples = 3\<rparr> (T2 [[0, 1, 0], [0, 2, 0]]) = Inr [0, 0]"
    "fit_predict_ex \<lparr>eps = 24 / 100, min_samples = 3\<rparr> (T2 [[1], [1]]) = Inr [1, 1]"
    by (simp_all add: fit_predict_ex_def)
  have sc: "score_clusters score_ex embedded_ex 5 [0, 1] = Inr (1 / 2)"
    by (simp add: score_clusters_def Let_def embedded_ex_get truth_frame_def
        submission_frame_def score_ex_def upt_rec)
  note th = clusters_from_gnn_embedding [where net = "GNN_forward gnn_ex",
      OF embed_loop_ex i net, of fit_predict_ex score_ex]
  from th have e: "list_get (emb_gnn embedded_ex) 5 = Inr (T2 [[0, 1], [1, 0]])"
    by (rule conjunct1)
  from th have s: "score_sample fit_predict_ex score_ex embedded_ex 5
      = ebind (fit_predict_ex \<lparr>eps = 24 / 100, min_samples = 3\<rparr> (T2 [[0, 1], [1, 0]]))
          (\<lambda>clusters. score_clusters score_ex embedded_ex 5 clusters)"
    by (rule conjunct2)
  have s2: "score_sample fit_predict_ex score_ex embedded_ex 5 = Inr (1 / 2)"
    unfolding s fp(1) ebind_Inr by (rule sc)
  from e s2 fp show ?thesis by (intro conjI)
qed

theorem final_score_mean_witness:
  "final_score fit_predict_ex score_ex embedded_ex = Inr (1 / 2)
   \<and> map hit_id (truth_table [7, 7] [1 / 2, 1 / 2]) = [0, 1]
   \<and> map sub_hit_id (submission_table [0, 1]) = [0, 1]"
proof -
  have enough: "20 \<le> length batches_ex" by (simp add: batches_ex_def)
  from gnn_ex_run obtain g' where
    run: "GNN_forward gnn_ex g_sample = Inr (T2 [[0, 1], [1, 0]], g')" by blast
  have fp: "fit_predict_ex c_DBSCAN (T2 [[0, 1], [1, 0]]) = Inr [0, 1]"
    by (simp add: fit_predict_ex_def c_DBSCAN_def)
  have samples: "\<forall>i < 20.
           ndata (fst (batches_ex ! i)) ''pid'' = Some (T1 [7, 7])
         \<and> ndata (fst (batches_ex ! i)) ''weight'' = Some (T1 [1 / 2, 1 / 2])
         \<and> GNN_forward gnn_ex (fst (batches_ex ! i)) = Inr (T2 [[0, 1], [1, 0]], g')
         \<and> fit_predict_ex c_DBSCAN (T2 [[0, 1], [1, 0]]) = Inr [0, 1]
         \<and> length [7, 7 :: real] = length [0, 1 :: int]
         \<and> length [1 / 2, 1 / 2 :: real] = length [0, 1 :: int]"
    by (simp add: batches_ex_nth g_sample_fields run fp)
  have t: "truth_table [7, 7] [1 / 2, 1 / 2]
             = [\<lparr>particle_id = 7, hit_id = 0, hit_weight = 1 / 2\<rparr>,
                \<lparr>particle_id = 7, hit_id = 1, hit_weight = 1 / 2\<rparr>]"
    by (simp add: truth_table_def upt_rec)
  have u: "submission_table [0, 1]
             = [\<lparr>sub_hit_id = 0, track_id = 0\<rparr>, \<lparr>sub_hit_id = 1, track_id = 1\<rparr>]"
    by (simp add: submission_table_def upt_rec)
  from final_score_mean [where net = "GNN_forward gnn_ex" and fit_predict = fit_predict_ex
      and ps = "\<lambda>_. [7, 7]" and ws = "\<lambda>_. [1 / 2, 1 / 2]"
      and hits_emb = "\<lambda>_. T2 [[0, 1], [1, 0]]" and g' = "\<lambda>_. g'" and cl = "\<lambda>_. [0, 1]"
      and score_event_fn = score_ex, OF embed_loop_ex enough samples]
  show ?thesis by (simp add: t u score_ex_def sum_list_triv)
qed

section \<open>Properties of the TrackML score\<close>

lemma track_credit_nonzero:
  assumes "track_credit truth submission t \<noteq> 0"
  shows "\<exists>p. matched truth submission t p"
proof (rule ccontr)
  assume "\<not> (\<exists>p. matched truth submission t p)"
  then have "track_credit truth submission t = 0"
    by (simp add: track_credit_def)
  with assms show False by simp
qed

lemma particle_hits_distinct:
  "distinct (map hit_id truth) \<Longrightarrow> distinct (particle_hits truth p)"
  by (simp add: particle_hits_def distinct_map_filter)

lemma particle_hits_disjoint:
  assumes "distinct (map hit_id truth)" and "p \<noteq> q"
  shows "set (particle_hits truth p) \<inter> set (particle_hits truth q) = {}"
proof (rule ccontr)
  assume "set (particle_hits truth p) \<inter> set (particle_hits truth q) \<noteq> {}"
  then obtain h where "h \<in> set (particle_hits truth p)" "h \<in> set (particle_hits truth q)"
    by blast
  then obtain r r' where r: "r \<in> set truth" "particle_id r = p" "hit_id r = h"
    and r': "r' \<in> set truth" "particle_id r' = q" "hit_id r' = h"
    by (auto simp: particle_hits_def)
  from assms(1) r(1) r'(1) r(3) r'(3) have "r = r'"
    by (simp add: distinct_map inj_on_def)
  with r(2) r'(2) assms(2) show False by simp
qed

lemma matched_unique:
  assumes d: "distinct (map hit_id truth)"
    and p: "matched truth submission t p" and q: "matched truth submission t q"
  shows "p = q"
proof (rule ccontr)
  assume ne: "p \<noteq> q"
  let ?T = "set (track_hits submission t)"
  let ?A = "set (shared_hits truth submission t p)"
  let ?B = "set (shared_hits truth submission t q)"
  have dA: "distinct (shared_hits truth submission t p)"
    and dB: "distinct (shared_hits truth submission t q)"
    using d by (simp_all add: shared_hits_def particle_hits_distinct)
  have sub: "?A \<union> ?B \<subseteq> ?T" by (auto simp: shared_hits_def)
  have dis: "?A \<inter> ?B = {}"
    using particle_hits_disjoint [OF d ne] by (auto simp: shared_hits_def)
  have "card ?A + card ?B = card (?A \<union> ?B)"
    using dis by (simp add: card_Un_disjoint)
  also have "\<dots> \<le> card ?T" using sub by (simp add: card_mono)
  also have "\<dots> \<le> length (track_hits submission t)" by (rule card_length)
  finally have le: "card ?A + card ?B \<le> length (track_hits submission t)" .
  from dA dB have "card ?A = length (shared_hits truth submission t p)"
    "card ?B = length (shared_hits truth submission t q)"
    by (simp_all add: distinct_card)
  with le p q show False by (simp add: matched_def)
qed

lemma matched_particle:
  assumes "matched truth submission t p"
  shows "p \<in> set (map particle_id truth)"
proof -
  from assms have "shared_hits truth submission t p \<noteq> []"
    by (auto simp: matched_def)
  then have "particle_hits truth p \<noteq> []" by (auto simp: shared_hits_def)
  then obtain r where "r \<in> set truth" "particle_id r = p"
    by (auto simp: particle_hits_def filter_empty_conv)
  then show ?thesis by auto
qed

lemma track_credit_matched:
  assumes d: "distinct (map hit_id truth)" and m: "matched truth submission t p"
  shows "track_credit truth submission t = shared_weight truth submission t p"
proof -
  let ?S = "set (remdups (map particle_id truth))"
  have "track_credit truth submission t
          = (\<Sum>q \<in> ?S. if matched truth submission t q
                          then shared_weight truth submission t q else 0)"
    unfolding track_credit_def by (rule sum_list_distinct_conv_sum_set) simp
  also have "\<dots> = (\<Sum>q \<in> ?S. if q = p then shared_weight truth submission t p else 0)"
  proof (rule sum.cong [OF refl])
    fix q
    show "(if matched truth submission t q then shared_weight truth submission t q else 0)
            = (if q = p then shared_weight truth submission t p else 0)"
    proof (cases "matched truth submission t q")
      case True
      from matched_unique [OF d True m] have "q = p" .
      with True show ?thesis by simp
    next
      case False
      with m have "q \<noteq> p" by blast
      with False show ?thesis by simp
    qed
  qed
  also have "\<dots> = shared_weight truth submission t p"
    using matched_particle [OF m] by (simp add: sum.delta)
  finally show ?thesis .
qed

text \<open>
  C5. A predicted cluster has a credit other than zero in \<^verbatim>\<open>score_event\<close> only if
  it is matched with a true particle, which means that the hits they share are more
  than half of the cluster and more than half of the particle; that particle is the
  only one, the credit is the weight of the shared hits, and the value of
  \<^verbatim>\<open>score_event\<close> is the sum of the credits over the weight of the event.
\<close>

theorem score_event_double_majority:
  assumes d: "distinct (map hit_id truth)"
    and c: "track_credit truth submission t \<noteq> 0"
  shows "(\<exists>p. matched truth submission t p
              \<and> (\<forall>q. matched truth submission t q \<longrightarrow> q = p)
              \<and> track_credit truth submission t = shared_weight truth submission t p)
       \<and> score_event truth submission
           = (if sum_list (map hit_weight truth) = 0 then 0
              else (\<Sum>t \<leftarrow> remdups (map track_id submission). track_credit truth submission t)
                     / sum_list (map hit_weight truth))"
proof -
  from track_credit_nonzero [OF c] obtain p where m: "matched truth submission t p" by blast
  have u: "\<forall>q. matched truth submission t q \<longrightarrow> q = p"
    using matched_unique [OF d _ m] by blast
  from m u track_credit_matched [OF d m]
  have "\<exists>p. matched truth submission t p
              \<and> (\<forall>q. matched truth submission t q \<longrightarrow> q = p)
              \<and> track_credit truth submission t = shared_weight truth submission t p"
    by blast
  then show ?thesis by (simp add: score_event_def Let_def)
qed

lemma ex_hits:
  "track_hits submission_ex 0 = [0, 1]"
  "track_hits submission_ex 1 = [2]"
  "track_hits submission_ex (- 1) = [3]"
  "particle_hits truth_ex 7 = [0, 1]"
  "particle_hits truth_ex 8 = [2, 3]"
  by (simp_all add: track_hits_def particle_hits_def submission_ex_def truth_ex_def)


lemma ex_matched:
  "matched truth_ex submission_ex 0 7" "\<not> matched truth_ex submission_ex 0 8"
  "\<not> matched truth_ex submission_ex 1 7" "\<not> matched truth_ex submission_ex 1 8"
  "\<not> matched truth_ex submission_ex (- 1) 7" "\<not> matched truth_ex submission_ex (- 1) 8"
  unfolding matched_def shared_hits_def ex_hits by simp_all

lemma ex_shared_weight: "shared_weight truth_ex submission_ex 0 7 = 1 / 2"
  unfolding shared_weight_def ex_hits by (simp add: truth_ex_def)

lemma ex_particles: "remdups (map particle_id truth_ex) = [7, 8]"
  by (simp add: truth_ex_def)

lemma ex_credit:
  "track_credit truth_ex submission_ex 0 = 1 / 2"
  "track_credit truth_ex submission_ex 1 = 0"
  "track_credit truth_ex submission_ex (- 1) = 0"
  unfolding track_credit_def ex_particles
  by (simp_all add: ex_matched ex_shared_weight)

theorem score_event_double_majority_witness:
  "distinct (map hit_id truth_ex)
   \<and> track_credit truth_ex submission_ex 0 = 1 / 2
   \<and> matched truth_ex submission_ex 0 7
   \<and> \<not> matched truth_ex submission_ex 0 8
   \<and> track_credit truth_ex submission_ex 1 = 0
   \<and> score_event truth_ex submission_ex = 1 / 2"
proof -
  have d: "distinct (map hit_id truth_ex)" by (simp add: truth_ex_def)
  have c: "track_credit truth_ex submission_ex 0 \<noteq> 0" by (simp add: ex_credit)
  have m: "matched truth_ex submission_ex 0 7" by (rule ex_matched)
  have total: "sum_list (map hit_weight truth_ex) = 1" by (simp add: truth_ex_def)
  have tr: "remdups (map track_id submission_ex) = [0, 1, - 1]"
    by (simp add: submission_ex_def)
  from score_event_double_majority [OF d c] obtain p where
    u: "\<forall>q. matched truth_ex submission_ex 0 q \<longrightarrow> q = p"
    and s: "score_event truth_ex submission_ex
           = (if sum_list (map hit_weight truth_ex) = 0 then 0
              else (\<Sum>t \<leftarrow> remdups (map track_id submission_ex).
                      track_credit truth_ex submission_ex t)
                     / sum_list (map hit_weight truth_ex))"
    by blast
  from u m have "p = 7" by auto
  with u have n: "\<not> matched truth_ex submission_ex 0 8" by auto
  from s have "score_event truth_ex submission_ex = 1 / 2"
    unfolding total tr by (simp add: ex_credit)
  with d m n show ?thesis by (simp add: ex_credit)
qed

section \<open>Properties of the notebook\<close>

lemma cell_load_Inr:
  assumes "cell_load lib nb = Inr nb'"
  shows "\<exists>bytes s. files (world nb) ''tracks.pickle'' = Some bytes
           \<and> lib_unpickle lib bytes = Inr s
           \<and> nb' = nb\<lparr>world := (world nb)\<lparr>opened := opened (world nb)
                                              @ [(''tracks.pickle'', ReadBinary)]\<rparr>,
                        var_samples := Some s\<rparr>"
proof -
  from assms obtain bytes where b: "files (world nb) ''tracks.pickle'' = Some bytes"
    by (cases "files (world nb) ''tracks.pickle''") (simp_all add: cell_load_def open_rb_def)
  from assms b obtain s where s: "lib_unpickle lib bytes = Inr s"
    by (cases "lib_unpickle lib bytes") (simp_all add: cell_load_def open_rb_def)
  from assms b s show ?thesis by (simp add: cell_load_def open_rb_def)
qed

lemma cell_inspect_Inr:
  assumes "cell_inspect lib nb = Inr nb'"
  shows "nb' = nb"
proof -
  from assms obtain s where s: "var_samples nb = Some s"
    by (cases "var_samples nb") (simp_all add: cell_inspect_def)
  from assms s obtain u where "lib_inspect lib s = Inr u"
    by (cases "lib_inspect lib s") (simp_all add: cell_inspect_def)
  with assms s show ?thesis by (simp add: cell_inspect_def)
qed

lemma cell_setup_Inr:
  assumes "cell_setup lib nb = Inr nb'"
  shows "\<exists>s. var_samples nb = Some s
           \<and> nb' = nb\<lparr>var_dataset := Some (lib_TrackML_Dataset lib s)\<rparr>"
proof -
  from assms obtain s where s: "var_samples nb = Some s"
    by (cases "var_samples nb") (simp_all add: cell_setup_def)
  with assms show ?thesis by (simp add: cell_setup_def)
qed

lemma cell_train_Inr:
  assumes "cell_train lib nb = Inr nb'"
  shows "\<exists>d. var_dataset nb = Some d \<and> nb' = nb\<lparr>var_net := Some (lib_train lib d)\<rparr>"
proof -
  from assms obtain d where d: "var_dataset nb = Some d"
    by (cases "var_dataset nb") (simp_all add: cell_train_def)
  with assms show ?thesis by (simp add: cell_train_def)
qed

lemma cell_embed_Inr:
  assumes "cell_embed lib nb = Inr nb'"
  shows "\<exists>d n e. var_dataset nb = Some d \<and> var_net nb = Some n
           \<and> embed_loop (GNN_forward n) d no_samples = Inr e
           \<and> nb' = nb\<lparr>var_embedded := Some e\<rparr>"
proof -
  from assms obtain d where d: "var_dataset nb = Some d"
    by (cases "var_dataset nb") (simp_all add: cell_embed_def)
  from assms d obtain n where n: "var_net nb = Some n"
    by (cases "var_net nb") (simp_all add: cell_embed_def)
  from assms d n obtain e where "embed_loop (GNN_forward n) d no_samples = Inr e"
    by (cases "embed_loop (GNN_forward n) d no_samples") (simp_all add: cell_embed_def)
  with assms d n show ?thesis by (auto simp: cell_embed_def)
qed

lemma cell_score_Inr:
  assumes "cell_score lib nb = Inr nb'"
  shows "\<exists>e a. var_embedded nb = Some e
           \<and> final_score (lib_fit_predict lib) (lib_score_event lib) e = Inr a
           \<and> nb' = nb\<lparr>var_avg_score := Some a\<rparr>"
proof -
  from assms obtain e where e: "var_embedded nb = Some e"
    by (cases "var_embedded nb") (simp_all add: cell_score_def)
  from assms e obtain a where
    "final_score (lib_fit_predict lib) (lib_score_event lib) e = Inr a"
    by (cases "final_score (lib_fit_predict lib) (lib_score_event lib) e")
       (simp_all add: cell_score_def)
  with assms e show ?thesis by (auto simp: cell_score_def)
qed

lemma ebind_InrD: "ebind x f = Inr y \<Longrightarrow> \<exists>v. x = Inr v \<and> f v = Inr y"
  by (cases x) simp_all

text \<open>
  C8. A run of the notebook from top to bottom opens one file, \<^verbatim>\<open>tracks.pickle\<close>, once
  and for reading, and leaves the files as they were; the samples it unpickles there are
  what the data set, the trained network, the embedded samples and the final score are
  computed from. The load comes first: every other stage raises \<^verbatim>\<open>NameError\<close> on a
  notebook in which nothing has run.
\<close>

theorem notebook_reads_pickle_once:
  assumes "run_notebook lib w = Inr nb"
  shows "opened (world nb) = opened w @ [(''tracks.pickle'', ReadBinary)]
       \<and> files (world nb) = files w
       \<and> (\<exists>bytes s e a.
             files w ''tracks.pickle'' = Some bytes \<and> lib_unpickle lib bytes = Inr s
             \<and> var_samples nb = Some s
             \<and> var_dataset nb = Some (lib_TrackML_Dataset lib s)
             \<and> var_net nb = Some (lib_train lib (lib_TrackML_Dataset lib s))
             \<and> embed_loop (GNN_forward (lib_train lib (lib_TrackML_Dataset lib s)))
                  (lib_TrackML_Dataset lib s) no_samples = Inr e
             \<and> var_embedded nb = Some e
             \<and> final_score (lib_fit_predict lib) (lib_score_event lib) e = Inr a
             \<and> var_avg_score nb = Some a)
       \<and> cell_inspect lib (fresh w) = Inl NameError
       \<and> cell_setup lib (fresh w) = Inl NameError
       \<and> cell_train lib (fresh w) = Inl NameError
       \<and> cell_embed lib (fresh w) = Inl NameError
       \<and> cell_score lib (fresh w) = Inl NameError"
proof -
  from ebind_InrD [OF assms [unfolded run_notebook_def]]
  obtain n1 where c1: "cell_load lib (fresh w) = Inr n1"
    and r1: "ebind (cell_inspect lib n1) (\<lambda>nb.
             ebind (cell_setup lib nb) (\<lambda>nb.
             ebind (cell_train lib nb) (\<lambda>nb.
             ebind (cell_embed lib nb) (\<lambda>nb. cell_score lib nb)))) = Inr nb"
    by blast
  from ebind_InrD [OF r1]
  obtain n2 where c2: "cell_inspect lib n1 = Inr n2"
    and r2: "ebind (cell_setup lib n2) (\<lambda>nb.
             ebind (cell_train lib nb) (\<lambda>nb.
             ebind (cell_embed lib nb) (\<lambda>nb. cell_score lib nb))) = Inr nb"
    by blast
  from ebind_InrD [OF r2]
  obtain n3 where c3: "cell_setup lib n2 = Inr n3"
    and r3: "ebind (cell_train lib n3) (\<lambda>nb.
             ebind (cell_embed lib nb) (\<lambda>nb. cell_score lib nb)) = Inr nb"
    by blast
  from ebind_InrD [OF r3]
  obtain n4 where c4: "cell_train lib n3 = Inr n4"
    and r4: "ebind (cell_embed lib n4) (\<lambda>nb. cell_score lib nb) = Inr nb"
    by blast
  from ebind_InrD [OF r4]
  obtain n5 where c5: "cell_embed lib n4 = Inr n5"
    and c6: "cell_score lib n5 = Inr nb"
    by blast
  from cell_load_Inr [OF c1] obtain bytes s where b: "files w ''tracks.pickle'' = Some bytes"
    and u: "lib_unpickle lib bytes = Inr s"
    and n1: "n1 = (fresh w)\<lparr>world := w\<lparr>opened := opened w @ [(''tracks.pickle'', ReadBinary)]\<rparr>,
                             var_samples := Some s\<rparr>"
    by (auto simp: fresh_def)
  from cell_inspect_Inr [OF c2] have n2: "n2 = n1" .
  from cell_setup_Inr [OF c3] obtain s' where
    "var_samples n2 = Some s'" "n3 = n2\<lparr>var_dataset := Some (lib_TrackML_Dataset lib s')\<rparr>"
    by blast
  with n2 n1 have n3: "n3 = n2\<lparr>var_dataset := Some (lib_TrackML_Dataset lib s)\<rparr>"
    by simp
  from cell_train_Inr [OF c4] obtain d where
    "var_dataset n3 = Some d" "n4 = n3\<lparr>var_net := Some (lib_train lib d)\<rparr>"
    by blast
  with n3 have n4: "n4 = n3\<lparr>var_net := Some (lib_train lib (lib_TrackML_Dataset lib s))\<rparr>"
    by simp
  from cell_embed_Inr [OF c5] obtain d' n' e where
    "var_dataset n4 = Some d'" "var_net n4 = Some n'"
    "embed_loop (GNN_forward n') d' no_samples = Inr e"
    and n5: "n5 = n4\<lparr>var_embedded := Some e\<rparr>" by blast
  with n4 n3 have el: "embed_loop (GNN_forward (lib_train lib (lib_TrackML_Dataset lib s)))
                  (lib_TrackML_Dataset lib s) no_samples = Inr e"
    by simp
  from cell_score_Inr [OF c6] obtain e' a where
    "var_embedded n5 = Some e'"
    "final_score (lib_fit_predict lib) (lib_score_event lib) e' = Inr a"
    and n6: "nb = n5\<lparr>var_avg_score := Some a\<rparr>" by blast
  with n5 have fs: "final_score (lib_fit_predict lib) (lib_score_event lib) e = Inr a"
    by simp
  have w: "opened (world nb) = opened w @ [(''tracks.pickle'', ReadBinary)]"
    and f: "files (world nb) = files w"
    and v: "var_samples nb = Some s" "var_dataset nb = Some (lib_TrackML_Dataset lib s)"
      "var_net nb = Some (lib_train lib (lib_TrackML_Dataset lib s))"
      "var_embedded nb = Some e" "var_avg_score nb = Some a"
    unfolding n6 n5 n4 n3 n2 n1 by simp_all
  have ne: "cell_inspect lib (fresh w) = Inl NameError"
    "cell_setup lib (fresh w) = Inl NameError"
    "cell_train lib (fresh w) = Inl NameError" "cell_embed lib (fresh w) = Inl NameError"
    "cell_score lib (fresh w) = Inl NameError"
    by (simp_all add: fresh_def cell_inspect_def cell_setup_def cell_train_def cell_embed_def
        cell_score_def)
  from b u v el fs have "\<exists>bytes s e a.
             files w ''tracks.pickle'' = Some bytes \<and> lib_unpickle lib bytes = Inr s
             \<and> var_samples nb = Some s
             \<and> var_dataset nb = Some (lib_TrackML_Dataset lib s)
             \<and> var_net nb = Some (lib_train lib (lib_TrackML_Dataset lib s))
             \<and> embed_loop (GNN_forward (lib_train lib (lib_TrackML_Dataset lib s)))
                  (lib_TrackML_Dataset lib s) no_samples = Inr e
             \<and> var_embedded nb = Some e
             \<and> final_score (lib_fit_predict lib) (lib_score_event lib) e = Inr a
             \<and> var_avg_score nb = Some a"
    by blast
  with w f ne show ?thesis by blast
qed

lemma score_sample_ex:
  "i < 20 \<Longrightarrow> score_sample fit_predict_ex score_ex embedded_ex i = Inr (1 / 2)"
  by (simp add: score_sample_def get_clusters_def c_DBSCAN_def fit_predict_ex_def
      score_clusters_def Let_def embedded_ex_get truth_frame_def submission_frame_def
      score_ex_def upt_rec)

lemma final_score_ex: "final_score fit_predict_ex score_ex embedded_ex = Inr (1 / 2)"
proof -
  have "\<forall>i \<in> set [0 ..< nb_samples].
          score_sample fit_predict_ex score_ex embedded_ex i = Inr ((\<lambda>_. 1 / 2) i)"
    by (simp add: nb_samples_def score_sample_ex)
  from score_loop_sum [OF this, of 0] show ?thesis
    by (simp add: final_score_def nb_samples_def sum_list_triv)
qed

lemma run_notebook_ex:
  "\<exists>nb. run_notebook lib_ex world_ex = Inr nb \<and> var_avg_score nb = Some (1 / 2)"
proof -
  have l: "cell_load lib_ex (fresh world_ex)
             = Inr ((fresh world_ex)
                 \<lparr>world := world_ex\<lparr>opened := [(''tracks.pickle'', ReadBinary)]\<rparr>,
                  var_samples := Some 20\<rparr>)"
    by (simp add: cell_load_def open_rb_def lib_ex_def world_ex_def fresh_def)
  have d: "lib_TrackML_Dataset lib_ex 20 = batches_ex"
    by (simp add: lib_ex_def batches_ex_def)
  have t: "lib_train lib_ex batches_ex = gnn_ex" "lib_fit_predict lib_ex = fit_predict_ex"
    "lib_score_event lib_ex = score_ex" "lib_inspect lib_ex 20 = Inr ()"
    by (simp_all add: lib_ex_def)
  show ?thesis
    unfolding run_notebook_def l ebind_Inr
    by (simp add: cell_inspect_def cell_setup_def cell_train_def cell_embed_def cell_score_def
        fresh_def d t embed_loop_ex final_score_ex)
qed

theorem notebook_reads_pickle_once_witness:
  "\<exists>nb. run_notebook lib_ex world_ex = Inr nb
        \<and> opened (world nb) = [(''tracks.pickle'', ReadBinary)]
        \<and> files (world nb) = files world_ex
        \<and> var_samples nb = Some 20
        \<and> var_avg_score nb = Some (1 / 2)"
proof -
  from run_notebook_ex obtain nb where run: "run_notebook lib_ex world_ex = Inr nb"
    and a: "var_avg_score nb = Some (1 / 2)" by blast
  from notebook_reads_pickle_once [OF run]
  have o: "opened (world nb) = opened world_ex @ [(''tracks.pickle'', ReadBinary)]"
    and f: "files (world nb) = files world_ex"
    and s: "\<exists>bytes s. files world_ex ''tracks.pickle'' = Some bytes
              \<and> lib_unpickle lib_ex bytes = Inr s \<and> var_samples nb = Some s"
    by blast+
  from s have "var_samples nb = Some 20"
    by (auto simp: world_ex_def lib_ex_def)
  with run a o f show ?thesis by (auto simp: world_ex_def)
qed

end
